theory Spec2Isabelle
  imports Main "HOL-Library.AList" "HOL-Library.Sublist"
begin

section \<open>JavaScript values the two scripts handle\<close>

text \<open>
  The development launcher \<^verbatim>\<open>scripts/dev.ts\<close> and the build script
  \<^verbatim>\<open>scripts/build.ts\<close> are command-line wrappers: they read the argument list and
  the environment, touch the file system to make a \<^verbatim>\<open>bunx\<close> alias reachable, spawn
  the task runner and translate the child's end into the process's own exit status.

  Text is a \<open>string\<close>; one \<open>char\<close> stands for one character of the JavaScript string,
  so only characters below 256 occur. An error value is either one the platform raised
  (a failed \<^verbatim>\<open>mkdtempSync\<close>, \<^verbatim>\<open>symlinkSync\<close>, spawn or validator) or one the scripts
  build with \<^verbatim>\<open>new Error(message)\<close>.
\<close>

datatype js_error = PlatformError string | Error string

text \<open>
  \<^verbatim>\<open>NodeJS.ProcessEnv\<close> is an object with string keys in insertion order: an
  association list. Reading a property is \<open>env_get\<close>; an assignment
  \<^verbatim>\<open>env.K = v\<close> overwrites the entry where it stands or adds one at the end.
\<close>

type_synonym env = "(string \<times> string) list"

definition env_get :: "env \<Rightarrow> string \<Rightarrow> string option" where
  "env_get e k = map_of e k"

definition env_set :: "string \<Rightarrow> string \<Rightarrow> env \<Rightarrow> env" where
  "env_set k v e = AList.update k v e"

text \<open>\<^verbatim>\<open>value || ''\<close> on a string that may be undefined.\<close>

definition or_empty :: "string option \<Rightarrow> string" where
  "or_empty v = (case v of None \<Rightarrow> '''' | Some t \<Rightarrow> (if t = '''' then '''' else t))"

text \<open>A string that may be undefined, inside a template literal.\<close>

definition template :: "string option \<Rightarrow> string" where
  "template v = (case v of None \<Rightarrow> ''undefined'' | Some t \<Rightarrow> t)"

text \<open>
  \<^verbatim>\<open>String.prototype.trim\<close>: the white space and line terminators below 256 are
  TAB, LF, VT, FF, CR, SPACE and the no-break space.
\<close>

definition is_space :: "char \<Rightarrow> bool" where
  "is_space c = (of_char c \<in> {9, 10, 11, 12, 13, 32, 160 :: nat})"

definition trim :: "string \<Rightarrow> string" where
  "trim t = rev (dropWhile is_space (rev (dropWhile is_space t)))"

text \<open>
  \<^verbatim>\<open>String.prototype.split\<close> with a one-character separator: the empty string
  splits into one empty piece, and neighbouring separators give empty pieces.
\<close>

fun split_on :: "char \<Rightarrow> string \<Rightarrow> string list" where
  "split_on d [] = [[]]"
| "split_on d (c # cs) =
     (if c = d then [] # split_on d cs
      else (case split_on d cs of
              [] \<Rightarrow> [[c]]
            | piece # pieces \<Rightarrow> (c # piece) # pieces))"

text \<open>\<^verbatim>\<open>Array.prototype.join(' ')\<close>.\<close>

fun join_spaces :: "string list \<Rightarrow> string" where
  "join_spaces [] = ''''"
| "join_spaces [t] = t"
| "join_spaces (t # u # ts) = t @ '' '' @ join_spaces (u # ts)"

text \<open>
  A child's exit code is \<^verbatim>\<open>number | null\<close>: \<open>None\<close> is \<^verbatim>\<open>null\<close>, the code of a
  child ended by a signal. \<open>show_code\<close> is what a template literal prints for it.
\<close>

fun show_nat :: "nat \<Rightarrow> string" where
  "show_nat n =
     (if n < 10 then [char_of (48 + n)]
      else show_nat (n div 10) @ [char_of (48 + n mod 10)])"

definition show_int :: "int \<Rightarrow> string" where
  "show_int i = (if i < 0 then ''-'' @ show_nat (nat (- i)) else show_nat (nat i))"

definition show_code :: "int option \<Rightarrow> string" where
  "show_code code = (case code of None \<Rightarrow> ''null'' | Some i \<Rightarrow> show_int i)"

text \<open>
  The number a decimal numeral denotes, with an optional leading minus sign. It is used
  to say which code a message carries.
\<close>

definition digit_value :: "char \<Rightarrow> nat" where
  "digit_value c = of_char c - 48"

definition read_nat :: "string \<Rightarrow> nat" where
  "read_nat t = foldl (\<lambda>a c. 10 * a + digit_value c) 0 t"

definition read_int :: "string \<Rightarrow> int" where
  "read_int t =
     (case t of
        [] \<Rightarrow> 0
      | c # cs \<Rightarrow> (if c = CHR ''-'' then - int (read_nat cs) else int (read_nat t)))"

section \<open>The configuration verdict\<close>

text \<open>
  Modelled from the spec: the type \<^verbatim>\<open>SetupValidation\<close> is declared in
  \<^verbatim>\<open>apps/shared-utils/setupValidation\<close>, which is not among the sources at hand. The
  verdict has a boolean \<^verbatim>\<open>complete\<close>, an optional \<^verbatim>\<open>reason\<close>, and the sequences
  \<^verbatim>\<open>missingFields\<close> and \<^verbatim>\<open>warnings\<close>, which the launcher guards against being
  absent before it reads their length.
\<close>

record SetupValidation =
  complete :: bool
  reason :: "string option"
  missingFields :: "string list option"
  warnings :: "string list option"

section \<open>Effects, the host and the process state\<close>

text \<open>
  What the scripts print is kept by kind, with the texts reduced to their ASCII words:
  the banner of \<^verbatim>\<open>printBanner\<close>, the panels of \<^verbatim>\<open>printValidationError\<close> and
  \<^verbatim>\<open>printCmsStarting\<close>, a plain \<^verbatim>\<open>console.log\<close> line, the \<^verbatim>\<open>console.warn\<close> of a
  failed shim and a \<^verbatim>\<open>console.error\<close> of a text with an error.
\<close>

datatype console_msg =
    Banner string
  | ValidationErrorPanel SetupValidation
  | CmsStartingPanel
  | Line string
  | ShimWarning js_error
  | ErrorLine string js_error

text \<open>
  Everything a run does to the world outside, in the order it happens: console output,
  a call of the configuration validator, a temporary directory made by
  \<^verbatim>\<open>fs.mkdtempSync\<close>, a symbolic link made by \<^verbatim>\<open>fs.symlinkSync\<close> (target, then link
  path), a directory handed to the \<^verbatim>\<open>process.on('exit')\<close> cleanup, a spawned child
  (command, arguments, environment) and a signal forwarded with \<^verbatim>\<open>child.kill\<close>.
\<close>

datatype effect =
    Console console_msg
  | ValidatorCall
  | Mkdtemp string
  | Symlink string string
  | OnExitRemove string
  | Spawn string "string list" env
  | KillChild string

text \<open>An existence test finds the path, does not find it, or throws.\<close>

datatype probe = Found | NotFound | ProbeThrows

text \<open>
  The first thing that happens to a launcher after it has spawned a child, among the
  things it listens to: the child's \<^verbatim>\<open>error\<close> event, the child's \<^verbatim>\<open>exit\<close> event
  with its code, an interrupt signal to the parent, or nothing at all (the child runs on).
  Each of the first three settles the promise or ends the process, so no later event
  is ever looked at.
\<close>

datatype fate = ErrorEvent js_error | ExitEvent "int option" | Sigint | Silence

text \<open>
  The host is everything the scripts are given: the process's argument vector,
  environment and executable path, the platform's path functions, and the answers of
  the file system, of the children and of the validator. A file-system answer may depend
  on what the process has done so far, so each takes the effects up to the call.
\<close>

record host =
  process_argv :: "string list"
  process_env :: env
  process_execPath :: string
  path_delimiter :: char
  path_join :: "string \<Rightarrow> string \<Rightarrow> string"
  os_tmpdir :: string
  fs_existsSync :: "effect list \<Rightarrow> string \<Rightarrow> probe"
  fs_mkdtempSync :: "effect list \<Rightarrow> string \<Rightarrow> js_error + string"
  fs_symlinkSync :: "effect list \<Rightarrow> string \<Rightarrow> string \<Rightarrow> js_error option"
  child_fate :: "string list \<Rightarrow> fate"
  validateSetupConfiguration :: "js_error + SetupValidation"

text \<open>
  A process is running, has ended with an exit status, was ended by a signal it does
  not handle, or waits for ever on a promise that never settles.
\<close>

datatype proc_status = Running | Exited nat | Killed | Waiting

record state =
  trace :: "effect list"
  status :: proc_status

definition emit :: "effect \<Rightarrow> state \<Rightarrow> state" where
  "emit e s = s\<lparr>trace := trace s @ [e]\<rparr>"

definition process_exit :: "nat \<Rightarrow> state \<Rightarrow> state" where
  "process_exit n s = s\<lparr>status := Exited n\<rparr>"

definition initial :: state where
  "initial = \<lparr>trace = [], status = Running\<rparr>"

text \<open>Readings of a trace: the children spawned, the directories made, the validator calls.\<close>

definition spawn_args :: "effect \<Rightarrow> string list list" where
  "spawn_args e = (case e of Spawn c a v \<Rightarrow> [a] | _ \<Rightarrow> [])"

definition spawned :: "effect list \<Rightarrow> string list list" where
  "spawned tr = concat (map spawn_args tr)"

definition made_dir :: "effect \<Rightarrow> string list" where
  "made_dir e = (case e of Mkdtemp d \<Rightarrow> [d] | _ \<Rightarrow> [])"

definition tmp_dirs :: "effect list \<Rightarrow> string list" where
  "tmp_dirs tr = concat (map made_dir tr)"

definition validator_calls :: "effect list \<Rightarrow> nat" where
  "validator_calls tr = length (filter (\<lambda>e. e = ValidatorCall) tr)"

section \<open>The environment resolver\<close>

text \<open>
  \<^verbatim>\<open>getEnvWithBunx\<close> stands in both scripts with the same text (lines 60 to 102 of
  \<^verbatim>\<open>dev.ts\<close>, lines 30 to 72 of \<^verbatim>\<open>build.ts\<close>), so it is embedded once.

  \<open>augmented\<close> is the clone of \<^verbatim>\<open>process.env\<close> after the three assignments that
  open the function.
\<close>

definition augmented :: "host \<Rightarrow> env" where
  "augmented h =
     (let env0 = process_env h;
          env1 = env_set ''NODE_OPTIONS''
                   (trim (or_empty (env_get env0 ''NODE_OPTIONS'') @ '' --no-deprecation'')) env0;
          env2 = env_set ''NX_TERMINAL_OUTPUT_FORMAT'' ''text'' env1;
          env3 = env_set ''NX_NATIVE_LOGGING'' ''false'' env2
      in env3)"

text \<open>
  The scan of the path list. An existence test that throws counts as not found, as the
  \<^verbatim>\<open>catch\<close> inside the callback returns false.
\<close>

definition bunxExists :: "host \<Rightarrow> effect list \<Rightarrow> env \<Rightarrow> bool" where
  "bunxExists h tr e =
     (let pathDirs = split_on (path_delimiter h) (or_empty (env_get e ''PATH''))
      in list_ex (\<lambda>dir. case fs_existsSync h tr (path_join h dir ''bunx'') of
                          Found \<Rightarrow> True
                        | NotFound \<Rightarrow> False
                        | ProbeThrows \<Rightarrow> False) pathDirs)"

text \<open>
  The body of the \<^verbatim>\<open>try\<close> block: it gives back the error thrown, if any, with the
  environment and the state as they are at that point. A directory made before
  \<^verbatim>\<open>symlinkSync\<close> throws stays made.
\<close>

definition shim_try :: "host \<Rightarrow> env \<Rightarrow> state \<Rightarrow> js_error option \<times> env \<times> state" where
  "shim_try h e s =
     (case fs_mkdtempSync h (trace s) (path_join h (os_tmpdir h) ''sveltycms-bunx-'') of
        Inl err \<Rightarrow> (Some err, e, s)
      | Inr tmpDir \<Rightarrow>
          (let s1 = emit (Mkdtemp tmpDir) s;
               bunPath = process_execPath h
           in case fs_symlinkSync h (trace s1) bunPath (path_join h tmpDir ''bunx'') of
                Some err \<Rightarrow> (Some err, e, s1)
              | None \<Rightarrow>
                  (let s2 = emit (Symlink bunPath (path_join h tmpDir ''bunx'')) s1;
                       e1 = env_set ''PATH''
                              (tmpDir @ [path_delimiter h] @ template (env_get e ''PATH'')) e;
                       s3 = emit (OnExitRemove tmpDir) s2
                   in (None, e1, s3))))"

definition getEnvWithBunx :: "host \<Rightarrow> state \<Rightarrow> env \<times> state" where
  "getEnvWithBunx h s =
     (let e = augmented h
      in if bunxExists h (trace s) e then (e, s)
         else (case shim_try h e s of
                 (None, e1, s1) \<Rightarrow> (e1, s1)
               | (Some err, e1, s1) \<Rightarrow> (e1, emit (Console (ShimWarning err)) s1)))"

section \<open>Promises and the launchers\<close>

datatype promise = Pending | Resolved | Rejected js_error

text \<open>
  \<^verbatim>\<open>launchApp\<close> of \<^verbatim>\<open>dev.ts\<close>. The executor prints two lines, resolves the
  environment while it builds the options of \<^verbatim>\<open>spawn\<close>, spawns, and registers its
  three handlers; what the promise becomes is then decided by the child's fate. The
  interrupt handler forwards the signal and ends the process with status 0, leaving the
  promise pending.
\<close>

definition launchApp :: "host \<Rightarrow> string \<Rightarrow> bool \<Rightarrow> state \<Rightarrow> promise \<times> state" where
  "launchApp h app production s =
     (let command = (if production then ''build'' else ''dev'');
          args = [command, app];
          s1 = emit (Console (Line (''Launching: '' @ app))) s;
          s2 = emit (Console (Line (''Command: nx '' @ join_spaces args))) s1;
          (e, s3) = getEnvWithBunx h s2;
          s4 = emit (Spawn ''bun'' ([''x'', ''nx''] @ args) e) s3
      in case child_fate h ([''x'', ''nx''] @ args) of
           ErrorEvent error \<Rightarrow>
             (Rejected error, emit (Console (ErrorLine (''Failed to start '' @ app @ '':'') error)) s4)
         | ExitEvent code \<Rightarrow>
             (if code \<noteq> Some 0
              then (Rejected (Error (app @ '' exited with code '' @ show_code code)), s4)
              else (Resolved, s4))
         | Sigint \<Rightarrow>
             (Pending,
              process_exit 0
                (emit (KillChild ''SIGINT'')
                   (emit (Console (Line ''Shutting down gracefully...'')) s4)))
         | Silence \<Rightarrow> (Pending, s4))"

text \<open>
  \<^verbatim>\<open>runBuild\<close> of \<^verbatim>\<open>build.ts\<close>: the verb is always \<^verbatim>\<open>build\<close>, the environment gets
  \<^verbatim>\<open>FORCE_COLOR\<close>, and there is no interrupt handler, so an interrupt ends the process
  by the signal.
\<close>

definition runBuild :: "host \<Rightarrow> string \<Rightarrow> state \<Rightarrow> promise \<times> state" where
  "runBuild h target s =
     (let s1 = emit (Console (Line (''Building: '' @ target))) s;
          (e, s2) = getEnvWithBunx h s1;
          e1 = env_set ''FORCE_COLOR'' ''1'' e;
          s3 = emit (Spawn ''bun'' [''x'', ''nx'', ''build'', target] e1) s2
      in case child_fate h [''x'', ''nx'', ''build'', target] of
           ErrorEvent error \<Rightarrow>
             (Rejected error, emit (Console (ErrorLine (''Failed to build '' @ target @ '':'') error)) s3)
         | ExitEvent code \<Rightarrow>
             (if code \<noteq> Some 0
              then (Rejected (Error (target @ '' build exited with code '' @ show_code code)), s3)
              else (Resolved, emit (Console (Line (target @ '' built successfully''))) s3))
         | Sigint \<Rightarrow> (Pending, s3\<lparr>status := Killed\<rparr>)
         | Silence \<Rightarrow> (Pending, s3))"

text \<open>
  \<^verbatim>\<open>await\<close> inside a \<^verbatim>\<open>try\<close>: a process that has ended runs nothing more, a
  resolved promise lets the rest run, a rejected one enters the \<^verbatim>\<open>catch\<close> block, and
  a promise that stays pending is waited on for ever.
\<close>

definition await :: "promise \<times> state \<Rightarrow> (state \<Rightarrow> state) \<Rightarrow> (js_error \<Rightarrow> state \<Rightarrow> state) \<Rightarrow> state" where
  "await ps rest handler =
     (case ps of (p, s) \<Rightarrow>
        (if status s \<noteq> Running then s
         else (case p of
                 Resolved \<Rightarrow> rest s
               | Rejected error \<Rightarrow> handler error s
               | Pending \<Rightarrow> s\<lparr>status := Waiting\<rparr>)))"

section \<open>The development launcher\<close>

definition dev_args :: "host \<Rightarrow> string list" where
  "dev_args h = drop 2 (process_argv h)"

definition forceSetup :: "host \<Rightarrow> bool" where
  "forceSetup h = (''--setup'' \<in> set (dev_args h))"

definition forceCms :: "host \<Rightarrow> bool" where
  "forceCms h = (''--cms'' \<in> set (dev_args h))"

definition isProduction :: "host \<Rightarrow> bool" where
  "isProduction h = (''--prod'' \<in> set (dev_args h) \<or> ''--production'' \<in> set (dev_args h))"

text \<open>The \<^verbatim>\<open>catch\<close> block of \<^verbatim>\<open>main\<close> in \<^verbatim>\<open>dev.ts\<close>.\<close>

definition dev_catch :: "js_error \<Rightarrow> state \<Rightarrow> state" where
  "dev_catch error s = process_exit 1 (emit (Console (ErrorLine ''Launch failed:'' error)) s)"

text \<open>The warnings the launcher lists before it starts the CMS.\<close>

definition show_warnings :: "SetupValidation \<Rightarrow> state \<Rightarrow> state" where
  "show_warnings validation s =
     (case warnings validation of
        None \<Rightarrow> s
      | Some ws \<Rightarrow>
          (if length ws > 0
           then emit (Console (Line []))
                  (foldl (\<lambda>t w. emit (Console (Line (''   - '' @ w))) t)
                     (emit (Console (Line ''Configuration Warnings:'')) s) ws)
           else s))"

text \<open>
  \<^verbatim>\<open>main\<close> of \<^verbatim>\<open>dev.ts\<close>. A validator that throws is caught by the same
  \<^verbatim>\<open>catch\<close> block as a rejected launch.
\<close>

definition dev_main :: "host \<Rightarrow> state \<Rightarrow> state" where
  "dev_main h s =
     (let s1 = emit (Console (Banner ''SveltyCMS Development Launcher'')) s
      in if forceSetup h then
           (let s2 = emit (Console (Line ''Force flag detected: --setup'')) s1;
                s3 = emit (Console (Line ''   Skipping validation, launching setup wizard...'')) s2
            in await (launchApp h ''setup-wizard'' (isProduction h) s3) (\<lambda>t. t) dev_catch)
         else if forceCms h then
           (let s2 = emit (Console (Line ''Force flag detected: --cms'')) s1;
                s3 = emit (Console (Line ''   Skipping validation, launching CMS...'')) s2
            in await (launchApp h ''cms'' (isProduction h) s3) (\<lambda>t. t) dev_catch)
         else
           (let s2 = emit (Console (Line ''Checking configuration...'')) s1;
                s3 = emit ValidatorCall s2
            in case validateSetupConfiguration h of
                 Inl error \<Rightarrow> dev_catch error s3
               | Inr validation \<Rightarrow>
                   (if \<not> complete validation then
                      (let s4 = emit (Console (ValidationErrorPanel validation)) s3;
                           s5 = emit (Console (Line
                                  ''Tip: After setup completes, run bun dev again to start the CMS'')) s4
                       in await (launchApp h ''setup-wizard'' (isProduction h) s5) (\<lambda>t. t) dev_catch)
                    else
                      (let s4 = emit (Console CmsStartingPanel) s3;
                           s5 = show_warnings validation s4
                       in await (launchApp h ''cms'' (isProduction h) s5) (\<lambda>t. t) dev_catch))))"

definition dev_run :: "host \<Rightarrow> state" where
  "dev_run h = dev_main h initial"

section \<open>The build script\<close>

definition build_args :: "host \<Rightarrow> string list" where
  "build_args h = drop 2 (process_argv h)"

definition buildAll :: "host \<Rightarrow> bool" where
  "buildAll h = (''--all'' \<in> set (build_args h))"

text \<open>The \<^verbatim>\<open>catch\<close> block of \<^verbatim>\<open>main\<close> in \<^verbatim>\<open>build.ts\<close>.\<close>

definition build_catch :: "js_error \<Rightarrow> state \<Rightarrow> state" where
  "build_catch error s = process_exit 1 (emit (Console (ErrorLine ''Build failed:'' error)) s)"

definition build_main :: "host \<Rightarrow> state \<Rightarrow> state" where
  "build_main h s =
     (let s1 = emit (Console (Banner ''SveltyCMS Build'')) s
      in if buildAll h then
           (let s2 = emit (Console (Line ''Building all apps...'')) s1
            in await (runBuild h ''setup-wizard'' s2)
                 (\<lambda>s3. await (runBuild h ''cms'' s3)
                          (\<lambda>s4. emit (Console (Line ''All builds completed successfully!'')) s4)
                          build_catch)
                 build_catch)
         else await (runBuild h ''cms'' s1) (\<lambda>t. t) build_catch)"

definition build_run :: "host \<Rightarrow> state" where
  "build_run h = build_main h initial"

section \<open>Concrete hosts\<close>

text \<open>
  A POSIX machine on which no \<^verbatim>\<open>bunx\<close> is installed: two directories on the path
  list, every existence test negative, directory and link creation succeed (the first
  temporary directory ends in \<^verbatim>\<open>Ab12Cd\<close>, any later one in \<^verbatim>\<open>Ef34Gh\<close>), every child
  exits with code 0, and the configuration is complete.
\<close>

definition posix_join :: "string \<Rightarrow> string \<Rightarrow> string" where
  "posix_join a b = (if a = [] then b else a @ ''/'' @ b)"

definition fresh_dir :: "effect list \<Rightarrow> string \<Rightarrow> js_error + string" where
  "fresh_dir tr stem = Inr (stem @ (if tmp_dirs tr = [] then ''Ab12Cd'' else ''Ef34Gh''))"

definition complete_verdict :: SetupValidation where
  "complete_verdict =
     \<lparr>complete = True, reason = None, missingFields = None,
      warnings = Some [''Using default admin password'']\<rparr>"

definition incomplete_verdict :: SetupValidation where
  "incomplete_verdict =
     \<lparr>complete = False, reason = Some ''Missing database URL'',
      missingFields = Some [''DB_URL''], warnings = Some []\<rparr>"

definition plain_host :: host where
  "plain_host =
     \<lparr>process_argv = [''bun'', ''scripts/dev.ts''],
      process_env = [(''HOME'', ''/root''), (''PATH'', ''/usr/bin:/bin'')],
      process_execPath = ''/usr/local/bin/bun'',
      path_delimiter = CHR '':'',
      path_join = posix_join,
      os_tmpdir = ''/tmp'',
      fs_existsSync = (\<lambda>tr p. NotFound),
      fs_mkdtempSync = fresh_dir,
      fs_symlinkSync = (\<lambda>tr target link. None),
      child_fate = (\<lambda>a. ExitEvent (Some 0)),
      validateSetupConfiguration = Inr complete_verdict\<rparr>"

text \<open>The launcher called with both force flags, \<^verbatim>\<open>--cms\<close> first.\<close>

definition cms_first_host :: host where
  "cms_first_host = plain_host\<lparr>process_argv := [''bun'', ''scripts/dev.ts'', ''--cms'', ''--setup'']\<rparr>"

text \<open>The launcher called with one force flag, and with none on an incomplete configuration.\<close>

definition setup_host :: host where
  "setup_host = plain_host\<lparr>process_argv := [''bun'', ''scripts/dev.ts'', ''--setup'', ''--prod'']\<rparr>"

definition cms_host :: host where
  "cms_host = plain_host\<lparr>process_argv := [''bun'', ''scripts/dev.ts'', ''--cms'']\<rparr>"

definition unconfigured_host :: host where
  "unconfigured_host = plain_host\<lparr>validateSetupConfiguration := Inr incomplete_verdict\<rparr>"

text \<open>The build script called with \<^verbatim>\<open>--all\<close>; in the second host the first build exits with code 1.\<close>

definition build_all_host :: host where
  "build_all_host = plain_host\<lparr>process_argv := [''bun'', ''scripts/build.ts'', ''--all'']\<rparr>"

definition failing_build_host :: host where
  "failing_build_host =
     build_all_host\<lparr>child_fate := (\<lambda>a. if a = [''x'', ''nx'', ''build'', ''setup-wizard'']
                                         then ExitEvent (Some 1) else ExitEvent (Some 0))\<rparr>"

text \<open>Children that end by a signal, and children that cannot be started.\<close>

definition signalled_host :: host where
  "signalled_host = plain_host\<lparr>child_fate := (\<lambda>a. ExitEvent None)\<rparr>"

definition enoent_host :: host where
  "enoent_host = plain_host\<lparr>child_fate := (\<lambda>a. ErrorEvent (PlatformError ''spawn bun ENOENT''))\<rparr>"

text \<open>
  A machine whose temporary directory is not writable, one that refuses symbolic links,
  and one that has \<^verbatim>\<open>bunx\<close>.
\<close>

definition readonly_host :: host where
  "readonly_host =
     plain_host\<lparr>fs_mkdtempSync := (\<lambda>tr stem. Inl (PlatformError ''EACCES: permission denied, mkdtemp''))\<rparr>"

definition nolink_host :: host where
  "nolink_host =
     plain_host\<lparr>fs_symlinkSync :=
       (\<lambda>tr target link. Some (PlatformError ''EPERM: operation not permitted, symlink''))\<rparr>"

definition bunx_host :: host where
  "bunx_host =
     plain_host\<lparr>fs_existsSync := (\<lambda>tr p. if p = ''/usr/bin/bunx'' then Found else NotFound)\<rparr>"

text \<open>A child that is killed and exits with code 137, and a validator that throws.\<close>

definition crashing_host :: host where
  "crashing_host = plain_host\<lparr>child_fate := (\<lambda>a. ExitEvent (Some 137))\<rparr>"

definition throwing_validator_host :: host where
  "throwing_validator_host =
     plain_host\<lparr>validateSetupConfiguration := Inl (PlatformError ''Unexpected token in config'')\<rparr>"

section \<open>Lemmas on environments, traces and the launchers\<close>

declare show_nat.simps [simp del]

lemma env_get_set: "env_get (env_set k v e) k' = (if k' = k then Some v else env_get e k')"
  by (simp add: env_get_def env_set_def update_conv')

lemma trace_emit: "trace (emit e s) = trace s @ [e]"
  by (simp add: emit_def)

lemma status_emit: "status (emit e s) = status s"
  by (simp add: emit_def)

lemma spawned_append: "spawned (xs @ ys) = spawned xs @ spawned ys"
  by (simp add: spawned_def)

lemma tmp_dirs_append: "tmp_dirs (xs @ ys) = tmp_dirs xs @ tmp_dirs ys"
  by (simp add: tmp_dirs_def)

lemma validator_calls_append: "validator_calls (xs @ ys) = validator_calls xs + validator_calls ys"
  by (simp add: validator_calls_def)

lemma trim_flag: "suffix ''--no-deprecation'' (trim (t @ '' --no-deprecation''))"
proof -
  let ?f = "''--no-deprecation''"
  have "\<exists>p. dropWhile is_space (t @ '' '' @ ?f) = p @ ?f"
  proof (cases "\<forall>c\<in>set t. is_space c")
    case True
    then have "dropWhile is_space (t @ '' '' @ ?f) = dropWhile is_space ('' '' @ ?f)"
      by (simp add: dropWhile_append)
    also have "\<dots> = [] @ ?f" by (simp add: is_space_def)
    finally show ?thesis by blast
  next
    case False
    then have "dropWhile is_space (t @ '' '' @ ?f) = (dropWhile is_space t @ '' '') @ ?f"
      by (auto simp: dropWhile_append)
    then show ?thesis by blast
  qed
  then obtain p where p: "dropWhile is_space (t @ '' --no-deprecation'') = p @ ?f" by auto
  have "trim (t @ '' --no-deprecation'') = p @ ?f"
    unfolding trim_def p by (simp add: is_space_def)
  then show ?thesis by (simp add: suffix_def)
qed

lemma augmented_get:
  "env_get (augmented h) k =
     (if k = ''NX_NATIVE_LOGGING'' then Some ''false''
      else if k = ''NX_TERMINAL_OUTPUT_FORMAT'' then Some ''text''
      else if k = ''NODE_OPTIONS''
        then Some (trim (or_empty (env_get (process_env h) ''NODE_OPTIONS'') @ '' --no-deprecation''))
      else env_get (process_env h) k)"
  by (simp add: augmented_def Let_def env_get_set)

lemma getEnv_cases:
  "fst (getEnvWithBunx h s) = augmented h \<or>
   (\<exists>v. fst (getEnvWithBunx h s) = env_set ''PATH'' v (augmented h))"
  by (auto simp: getEnvWithBunx_def shim_try_def Let_def split: sum.splits option.splits)

lemma spawn_args_simps:
  "spawn_args (Console m) = []" "spawn_args ValidatorCall = []" "spawn_args (Mkdtemp d) = []"
  "spawn_args (Symlink x y) = []" "spawn_args (OnExitRemove d) = []"
  "spawn_args (Spawn c a v) = [a]" "spawn_args (KillChild g) = []"
  by (simp_all add: spawn_args_def)

lemma made_dir_simps:
  "made_dir (Console m) = []" "made_dir ValidatorCall = []" "made_dir (Mkdtemp d) = [d]"
  "made_dir (Symlink x y) = []" "made_dir (OnExitRemove d) = []"
  "made_dir (Spawn c a v) = []" "made_dir (KillChild g) = []"
  by (simp_all add: made_dir_def)

lemma spawned_list: "spawned [] = []" "spawned (e # tr) = spawn_args e @ spawned tr"
  by (simp_all add: spawned_def)

lemma tmp_dirs_list: "tmp_dirs [] = []" "tmp_dirs (e # tr) = made_dir e @ tmp_dirs tr"
  by (simp_all add: tmp_dirs_def)

lemma validator_calls_list:
  "validator_calls [] = 0"
  "validator_calls (e # tr) = (if e = ValidatorCall then 1 else 0) + validator_calls tr"
  by (simp_all add: validator_calls_def)

lemma status_process_exit: "status (process_exit n s) = Exited n"
  by (simp add: process_exit_def)

lemma trace_process_exit: "trace (process_exit n s) = trace s"
  by (simp add: process_exit_def)

lemmas step_simps = trace_emit status_emit spawned_append tmp_dirs_append validator_calls_append
  spawned_list tmp_dirs_list validator_calls_list
  spawn_args_simps made_dir_simps status_process_exit trace_process_exit

lemma getEnv_status: "status (snd (getEnvWithBunx h s)) = status s"
  by (simp add: getEnvWithBunx_def shim_try_def Let_def step_simps split: sum.splits option.splits)

lemma getEnv_spawned: "spawned (trace (snd (getEnvWithBunx h s))) = spawned (trace s)"
  by (simp add: getEnvWithBunx_def shim_try_def Let_def step_simps split: sum.splits option.splits)

lemma getEnv_validator:
  "validator_calls (trace (snd (getEnvWithBunx h s))) = validator_calls (trace s)"
  by (simp add: getEnvWithBunx_def shim_try_def Let_def step_simps split: sum.splits option.splits)

lemma getEnv_tmp_dirs:
  "length (tmp_dirs (trace s)) \<le> n \<Longrightarrow>
     length (tmp_dirs (trace (snd (getEnvWithBunx h s)))) \<le> Suc n"
  by (simp add: getEnvWithBunx_def shim_try_def Let_def step_simps split: sum.splits option.splits)

lemma launchApp_spawned:
  "spawned (trace (snd (launchApp h app p s))) =
     spawned (trace s) @ [[''x'', ''nx'', if p then ''build'' else ''dev'', app]]"
  by (simp add: launchApp_def Let_def case_prod_beta step_simps getEnv_spawned split: fate.splits)

lemma launchApp_validator:
  "validator_calls (trace (snd (launchApp h app p s))) = validator_calls (trace s)"
  by (simp add: launchApp_def Let_def case_prod_beta step_simps getEnv_validator split: fate.splits)

lemma launchApp_tmp_dirs:
  assumes "length (tmp_dirs (trace s)) \<le> n"
  shows "length (tmp_dirs (trace (snd (launchApp h app p s)))) \<le> Suc n"
proof -
  let ?s2 = "emit (Console (Line (''Command: nx '' @ join_spaces [if p then ''build'' else ''dev'', app])))
               (emit (Console (Line (''Launching: '' @ app))) s)"
  have "length (tmp_dirs (trace ?s2)) \<le> n"
    using assms by (simp add: step_simps)
  then have "length (tmp_dirs (trace (snd (getEnvWithBunx h ?s2)))) \<le> Suc n"
    by (rule getEnv_tmp_dirs)
  moreover have "tmp_dirs (trace (snd (launchApp h app p s))) =
                 tmp_dirs (trace (snd (getEnvWithBunx h ?s2)))"
    by (simp add: launchApp_def Let_def case_prod_beta step_simps split: fate.splits)
  ultimately show ?thesis by simp
qed

lemma runBuild_spawned:
  "spawned (trace (snd (runBuild h target s))) =
     spawned (trace s) @ [[''x'', ''nx'', ''build'', target]]"
  by (simp add: runBuild_def Let_def case_prod_beta step_simps getEnv_spawned split: fate.splits)

lemma runBuild_tmp_dirs:
  assumes "length (tmp_dirs (trace s)) \<le> n"
  shows "length (tmp_dirs (trace (snd (runBuild h target s)))) \<le> Suc n"
proof -
  let ?s1 = "emit (Console (Line (''Building: '' @ target))) s"
  have "length (tmp_dirs (trace ?s1)) \<le> n"
    using assms by (simp add: step_simps)
  then have "length (tmp_dirs (trace (snd (getEnvWithBunx h ?s1)))) \<le> Suc n"
    by (rule getEnv_tmp_dirs)
  moreover have "tmp_dirs (trace (snd (runBuild h target s))) =
                 tmp_dirs (trace (snd (getEnvWithBunx h ?s1)))"
    by (simp add: runBuild_def Let_def case_prod_beta step_simps split: fate.splits)
  ultimately show ?thesis by simp
qed

lemma await_dev_spawned:
  "spawned (trace (await ps (\<lambda>t. t) dev_catch)) = spawned (trace (snd ps))"
  by (cases ps) (simp add: await_def dev_catch_def step_simps split: promise.splits)

lemma await_dev_validator:
  "validator_calls (trace (await ps (\<lambda>t. t) dev_catch)) = validator_calls (trace (snd ps))"
  by (cases ps) (simp add: await_def dev_catch_def step_simps split: promise.splits)

lemma await_dev_tmp_dirs:
  "tmp_dirs (trace (await ps (\<lambda>t. t) dev_catch)) = tmp_dirs (trace (snd ps))"
  by (cases ps) (simp add: await_def dev_catch_def step_simps split: promise.splits)

lemma show_warnings_trace:
  "spawned (trace (show_warnings v s)) = spawned (trace s) \<and>
   validator_calls (trace (show_warnings v s)) = validator_calls (trace s) \<and>
   tmp_dirs (trace (show_warnings v s)) = tmp_dirs (trace s)"
proof -
  have "spawned (trace (foldl (\<lambda>t w. emit (Console (Line (''   - '' @ w))) t) u ws)) = spawned (trace u) \<and>
        validator_calls (trace (foldl (\<lambda>t w. emit (Console (Line (''   - '' @ w))) t) u ws)) = validator_calls (trace u) \<and>
        tmp_dirs (trace (foldl (\<lambda>t w. emit (Console (Line (''   - '' @ w))) t) u ws)) = tmp_dirs (trace u)"
    for u ws
    by (induction ws arbitrary: u) (simp_all add: step_simps)
  then show ?thesis
    by (simp add: show_warnings_def step_simps split: option.splits)
qed

lemma dev_run_setup:
  "forceSetup h \<Longrightarrow>
     spawned (trace (dev_run h)) = [[''x'', ''nx'', if isProduction h then ''build'' else ''dev'', ''setup-wizard'']] \<and>
     validator_calls (trace (dev_run h)) = 0"
  by (simp add: dev_run_def dev_main_def Let_def initial_def await_dev_spawned await_dev_validator
        launchApp_spawned launchApp_validator step_simps)

lemma dev_run_cms:
  "\<not> forceSetup h \<Longrightarrow> forceCms h \<Longrightarrow>
     spawned (trace (dev_run h)) = [[''x'', ''nx'', if isProduction h then ''build'' else ''dev'', ''cms'']] \<and>
     validator_calls (trace (dev_run h)) = 0"
  by (simp add: dev_run_def dev_main_def Let_def initial_def await_dev_spawned await_dev_validator
        launchApp_spawned launchApp_validator step_simps)

lemma dev_run_auto:
  "\<not> forceSetup h \<Longrightarrow> \<not> forceCms h \<Longrightarrow>
     validator_calls (trace (dev_run h)) = 1 \<and>
     (case validateSetupConfiguration h of
        Inl err \<Rightarrow> spawned (trace (dev_run h)) = []
      | Inr v \<Rightarrow> spawned (trace (dev_run h)) =
          [[''x'', ''nx'', if isProduction h then ''build'' else ''dev'',
            if complete v then ''cms'' else ''setup-wizard'']])"
  by (simp add: dev_run_def dev_main_def Let_def initial_def await_dev_spawned await_dev_validator
        launchApp_spawned launchApp_validator step_simps show_warnings_trace dev_catch_def
        split: sum.splits)

lemmas host_defs = plain_host_def cms_first_host_def setup_host_def cms_host_def
  unconfigured_host_def build_all_host_def failing_build_host_def signalled_host_def
  enoent_host_def readonly_host_def nolink_host_def bunx_host_def
  crashing_host_def throwing_validator_host_def posix_join_def fresh_dir_def
  complete_verdict_def incomplete_verdict_def

lemmas run_defs = dev_run_def dev_main_def build_run_def build_main_def launchApp_def
  runBuild_def await_def getEnvWithBunx_def shim_try_def bunxExists_def augmented_def
  dev_args_def build_args_def forceSetup_def forceCms_def isProduction_def buildAll_def
  dev_catch_def build_catch_def show_warnings_def initial_def emit_def process_exit_def
  env_get_def env_set_def or_empty_def template_def trim_def is_space_def show_code_def
  show_int_def spawned_def spawn_args_def tmp_dirs_def made_dir_def validator_calls_def Let_def

lemma getEnv_tmp_dirs_exact:
  "tmp_dirs (trace (snd (getEnvWithBunx h s))) =
     tmp_dirs (trace s) @
       (if bunxExists h (trace s) (augmented h) then []
        else (case fs_mkdtempSync h (trace s) (path_join h (os_tmpdir h) ''sveltycms-bunx-'') of
                Inl err \<Rightarrow> []
              | Inr tmpDir \<Rightarrow> [tmpDir]))"
  by (simp add: getEnvWithBunx_def shim_try_def Let_def step_simps split: sum.splits option.splits)

lemma await_build_tmp_dirs:
  "tmp_dirs (trace (await ps (\<lambda>t. t) build_catch)) = tmp_dirs (trace (snd ps))"
  by (cases ps) (simp add: await_def build_catch_def step_simps split: promise.splits)

lemma dev_run_tmp_dirs: "length (tmp_dirs (trace (dev_run h))) \<le> 1"
proof -
  have l: "length (tmp_dirs (trace (snd (launchApp h app p s)))) \<le> Suc 0"
    if "tmp_dirs (trace s) = []" for app p s
    using launchApp_tmp_dirs [of s 0 h app p] that by simp
  show ?thesis
    by (simp add: dev_run_def dev_main_def Let_def initial_def await_dev_tmp_dirs dev_catch_def
          l step_simps show_warnings_trace split: sum.splits)
qed

lemma build_run_tmp_dirs: "length (tmp_dirs (trace (build_run h))) \<le> (if buildAll h then 2 else 1)"
proof (cases "buildAll h")
  case False
  have "length (tmp_dirs (trace (snd (runBuild h ''cms'' (emit (Console (Banner ''SveltyCMS Build'')) initial))))) \<le> Suc 0"
    by (rule runBuild_tmp_dirs) (simp add: initial_def step_simps)
  with False show ?thesis
    by (simp add: build_run_def build_main_def Let_def await_build_tmp_dirs)
next
  case True
  let ?s2 = "emit (Console (Line ''Building all apps...'')) (emit (Console (Banner ''SveltyCMS Build'')) initial)"
  obtain p1 t1 where r1: "runBuild h ''setup-wizard'' ?s2 = (p1, t1)" by (cases "runBuild h ''setup-wizard'' ?s2")
  obtain p2 t2 where r2: "runBuild h ''cms'' t1 = (p2, t2)" by (cases "runBuild h ''cms'' t1")
  have b1: "length (tmp_dirs (trace t1)) \<le> Suc 0"
    using runBuild_tmp_dirs [of ?s2 0 h "''setup-wizard''"] r1 by (simp add: initial_def step_simps)
  have b2: "length (tmp_dirs (trace t2)) \<le> Suc (Suc 0)"
    using runBuild_tmp_dirs [OF b1, of h "''cms''"] r2 by simp
  have "build_run h = await (p1, t1) (\<lambda>s3. await (runBuild h ''cms'' s3)
            (\<lambda>s4. emit (Console (Line ''All builds completed successfully!'')) s4) build_catch) build_catch"
    using True r1 by (simp add: build_run_def build_main_def Let_def)
  then have "length (tmp_dirs (trace (build_run h))) \<le> 2"
    using b1 b2 r2
    by (simp add: await_def build_catch_def step_simps split: promise.splits)
  with True show ?thesis by simp
qed

lemma runBuild_status:
  "status s = Running \<Longrightarrow> child_fate h [''x'', ''nx'', ''build'', target] \<noteq> Sigint \<Longrightarrow>
     status (snd (runBuild h target s)) = Running"
  by (simp add: runBuild_def Let_def case_prod_beta step_simps getEnv_status split: fate.splits)

lemma runBuild_promise:
  "fst (runBuild h target s) =
     (case child_fate h [''x'', ''nx'', ''build'', target] of
        ErrorEvent error \<Rightarrow> Rejected error
      | ExitEvent code \<Rightarrow>
          (if code = Some 0 then Resolved
           else Rejected (Error (target @ '' build exited with code '' @ show_code code)))
      | Sigint \<Rightarrow> Pending
      | Silence \<Rightarrow> Pending)"
  by (simp add: runBuild_def Let_def case_prod_beta split: fate.splits)

lemma launchApp_promise:
  "fst (launchApp h app p s) =
     (case child_fate h [''x'', ''nx'', if p then ''build'' else ''dev'', app] of
        ErrorEvent error \<Rightarrow> Rejected error
      | ExitEvent code \<Rightarrow>
          (if code = Some 0 then Resolved
           else Rejected (Error (app @ '' exited with code '' @ show_code code)))
      | Sigint \<Rightarrow> Pending
      | Silence \<Rightarrow> Pending)"
  by (simp add: launchApp_def Let_def case_prod_beta split: fate.splits)

lemma build_all_resolved:
  assumes "buildAll h" and "child_fate h [''x'', ''nx'', ''build'', ''setup-wizard''] = ExitEvent (Some 0)"
  shows "spawned (trace (build_run h)) =
           [[''x'', ''nx'', ''build'', ''setup-wizard''], [''x'', ''nx'', ''build'', ''cms'']]"
proof -
  let ?s2 = "emit (Console (Line ''Building all apps...'')) (emit (Console (Banner ''SveltyCMS Build'')) initial)"
  obtain p1 t1 where r1: "runBuild h ''setup-wizard'' ?s2 = (p1, t1)"
    by (cases "runBuild h ''setup-wizard'' ?s2")
  obtain p2 t2 where r2: "runBuild h ''cms'' t1 = (p2, t2)"
    by (cases "runBuild h ''cms'' t1")
  have p1: "p1 = Resolved"
    using runBuild_promise [of h "''setup-wizard''" ?s2] r1 assms(2) by simp
  have st1: "status t1 = Running"
    using runBuild_status [of ?s2 h "''setup-wizard''"] r1 assms(2)
    by (simp add: initial_def step_simps)
  have sp1: "spawned (trace t1) = [[''x'', ''nx'', ''build'', ''setup-wizard'']]"
    using runBuild_spawned [of h "''setup-wizard''" ?s2] r1 by (simp add: initial_def step_simps)
  have sp2: "spawned (trace t2) = spawned (trace t1) @ [[''x'', ''nx'', ''build'', ''cms'']]"
    using runBuild_spawned [of h "''cms''" t1] r2 by simp
  have "build_run h = await (p2, t2)
          (\<lambda>s4. emit (Console (Line ''All builds completed successfully!'')) s4) build_catch"
    using assms(1) r1 r2 p1 st1 by (simp add: build_run_def build_main_def Let_def await_def)
  then have "spawned (trace (build_run h)) = spawned (trace t2)"
    by (simp add: await_def build_catch_def step_simps split: promise.splits)
  with sp1 sp2 show ?thesis by simp
qed

lemma build_all_not_resolved:
  assumes "buildAll h" and "child_fate h [''x'', ''nx'', ''build'', ''setup-wizard''] \<noteq> ExitEvent (Some 0)"
  shows "spawned (trace (build_run h)) = [[''x'', ''nx'', ''build'', ''setup-wizard'']]"
proof -
  let ?s2 = "emit (Console (Line ''Building all apps...'')) (emit (Console (Banner ''SveltyCMS Build'')) initial)"
  obtain p1 t1 where r1: "runBuild h ''setup-wizard'' ?s2 = (p1, t1)"
    by (cases "runBuild h ''setup-wizard'' ?s2")
  have p1: "p1 \<noteq> Resolved"
    using runBuild_promise [of h "''setup-wizard''" ?s2] r1 assms(2)
    by (auto split: fate.splits if_splits)
  have sp1: "spawned (trace t1) = [[''x'', ''nx'', ''build'', ''setup-wizard'']]"
    using runBuild_spawned [of h "''setup-wizard''" ?s2] r1 by (simp add: initial_def step_simps)
  have "build_run h = await (p1, t1) (\<lambda>s3. await (runBuild h ''cms'' s3)
            (\<lambda>s4. emit (Console (Line ''All builds completed successfully!'')) s4) build_catch) build_catch"
    using assms(1) r1 by (simp add: build_run_def build_main_def Let_def)
  then have "spawned (trace (build_run h)) = spawned (trace t1)"
    using p1 by (simp add: await_def build_catch_def step_simps split: promise.splits)
  with sp1 show ?thesis by simp
qed

lemma build_all_rejected:
  assumes "buildAll h"
    and "(\<exists>error. child_fate h [''x'', ''nx'', ''build'', ''setup-wizard''] = ErrorEvent error) \<or>
         (\<exists>code. child_fate h [''x'', ''nx'', ''build'', ''setup-wizard''] = ExitEvent code \<and> code \<noteq> Some 0)"
  shows "status (build_run h) = Exited 1"
proof -
  let ?s2 = "emit (Console (Line ''Building all apps...'')) (emit (Console (Banner ''SveltyCMS Build'')) initial)"
  obtain p1 t1 where r1: "runBuild h ''setup-wizard'' ?s2 = (p1, t1)"
    by (cases "runBuild h ''setup-wizard'' ?s2")
  have p1: "\<exists>error. p1 = Rejected error"
    using runBuild_promise [of h "''setup-wizard''" ?s2] r1 assms(2) by auto
  have st1: "status t1 = Running"
    using runBuild_status [of ?s2 h "''setup-wizard''"] r1 assms(2)
    by (auto simp: initial_def step_simps)
  have "build_run h = await (p1, t1) (\<lambda>s3. await (runBuild h ''cms'' s3)
            (\<lambda>s4. emit (Console (Line ''All builds completed successfully!'')) s4) build_catch) build_catch"
    using assms(1) r1 by (simp add: build_run_def build_main_def Let_def)
  then show ?thesis
    using p1 st1 by (auto simp: await_def build_catch_def step_simps)
qed

section \<open>Lemmas on the rendered exit code and on directories per launch\<close>

lemma digit_value_char_of: "d < 10 \<Longrightarrow> digit_value (char_of (48 + d)) = d"
  by (simp add: digit_value_def)

lemma read_nat_snoc: "read_nat (t @ [c]) = 10 * read_nat t + digit_value c"
  by (simp add: read_nat_def)

lemma read_nat_show_nat: "read_nat (show_nat n) = n"
proof (induction n rule: show_nat.induct)
  case (1 n)
  show ?case
  proof (cases "n < 10")
    case True
    then show ?thesis
      by (subst show_nat.simps) (simp add: read_nat_def digit_value_char_of)
  next
    case False
    then have "read_nat (show_nat (n div 10)) = n div 10"
      using 1 by simp
    with False show ?thesis
      by (subst show_nat.simps) (simp add: read_nat_snoc digit_value_char_of)
  qed
qed

lemma show_nat_first: "\<exists>c cs. show_nat n = c # cs \<and> c \<noteq> CHR ''-''"
proof (induction n rule: show_nat.induct)
  case (1 n)
  show ?case
  proof (cases "n < 10")
    case True
    have "char_of (48 + n) \<noteq> CHR ''-''"
    proof
      assume "char_of (48 + n) = CHR ''-''"
      then have "(of_char (char_of (48 + n)) :: nat) = of_char (CHR ''-'')" by simp
      with True show False by simp
    qed
    with True show ?thesis
      by (subst show_nat.simps) simp
  next
    case False
    then obtain c cs where "show_nat (n div 10) = c # cs" "c \<noteq> CHR ''-''"
      using 1 by blast
    with False show ?thesis
      by (subst show_nat.simps) simp
  qed
qed

lemma read_int_show_int: "read_int (show_int i) = i"
proof (cases "i < 0")
  case True
  then show ?thesis
    by (simp add: show_int_def read_int_def read_nat_show_nat)
next
  case False
  obtain c cs where s: "show_nat (nat i) = c # cs" "c \<noteq> CHR ''-''"
    using show_nat_first [of "nat i"] by blast
  have "read_nat (c # cs) = nat i"
    using read_nat_show_nat [of "nat i"] s by simp
  with False s show ?thesis
    by (simp add: show_int_def read_int_def)
qed

lemma launchApp_one_resolver_call:
  "tmp_dirs (trace (snd (launchApp h app p s))) =
     tmp_dirs (trace (snd (getEnvWithBunx h
       (emit (Console (Line (''Command: nx '' @ join_spaces [if p then ''build'' else ''dev'', app])))
          (emit (Console (Line (''Launching: '' @ app))) s)))))"
  by (simp add: launchApp_def Let_def case_prod_beta step_simps split: fate.splits)

lemma runBuild_one_resolver_call:
  "tmp_dirs (trace (snd (runBuild h target s))) =
     tmp_dirs (trace (snd (getEnvWithBunx h (emit (Console (Line (''Building: '' @ target))) s))))"
  by (simp add: runBuild_def Let_def case_prod_beta step_simps split: fate.splits)

lemma launchApp_inv:
  assumes step: "\<And>t. J (length (tmp_dirs (trace t))) (length (spawned (trace t))) \<Longrightarrow>
                   J (length (tmp_dirs (trace (snd (getEnvWithBunx h t))))) (Suc (length (spawned (trace t))))"
    and start: "J (length (tmp_dirs (trace s))) (length (spawned (trace s)))"
  shows "J (length (tmp_dirs (trace (snd (launchApp h app p s)))))
           (length (spawned (trace (snd (launchApp h app p s)))))"
proof -
  let ?s2 = "emit (Console (Line (''Command: nx '' @ join_spaces [if p then ''build'' else ''dev'', app])))
               (emit (Console (Line (''Launching: '' @ app))) s)"
  have same: "tmp_dirs (trace ?s2) = tmp_dirs (trace s)" "spawned (trace ?s2) = spawned (trace s)"
    by (simp_all add: step_simps)
  have "J (length (tmp_dirs (trace ?s2))) (length (spawned (trace ?s2)))"
    unfolding same by (rule start)
  then have "J (length (tmp_dirs (trace (snd (getEnvWithBunx h ?s2))))) (Suc (length (spawned (trace ?s2))))"
    by (rule step)
  then show ?thesis
    unfolding launchApp_one_resolver_call launchApp_spawned same by simp
qed

lemma runBuild_inv:
  assumes step: "\<And>t. J (length (tmp_dirs (trace t))) (length (spawned (trace t))) \<Longrightarrow>
                   J (length (tmp_dirs (trace (snd (getEnvWithBunx h t))))) (Suc (length (spawned (trace t))))"
    and start: "J (length (tmp_dirs (trace s))) (length (spawned (trace s)))"
  shows "J (length (tmp_dirs (trace (snd (runBuild h target s)))))
           (length (spawned (trace (snd (runBuild h target s)))))"
proof -
  let ?s1 = "emit (Console (Line (''Building: '' @ target))) s"
  have same: "tmp_dirs (trace ?s1) = tmp_dirs (trace s)" "spawned (trace ?s1) = spawned (trace s)"
    by (simp_all add: step_simps)
  have "J (length (tmp_dirs (trace ?s1))) (length (spawned (trace ?s1)))"
    unfolding same by (rule start)
  then have "J (length (tmp_dirs (trace (snd (getEnvWithBunx h ?s1))))) (Suc (length (spawned (trace ?s1))))"
    by (rule step)
  then show ?thesis
    unfolding runBuild_one_resolver_call runBuild_spawned same by simp
qed

lemma await_build_spawned:
  "spawned (trace (await ps (\<lambda>t. t) build_catch)) = spawned (trace (snd ps))"
  by (cases ps) (simp add: await_def build_catch_def step_simps split: promise.splits)

lemma dev_run_inv:
  assumes step: "\<And>t. J (length (tmp_dirs (trace t))) (length (spawned (trace t))) \<Longrightarrow>
                   J (length (tmp_dirs (trace (snd (getEnvWithBunx h t))))) (Suc (length (spawned (trace t))))"
    and zero: "J 0 0"
  shows "J (length (tmp_dirs (trace (dev_run h)))) (length (spawned (trace (dev_run h))))"
proof -
  have launch: "J (length (tmp_dirs (trace (await (launchApp h app p s) (\<lambda>t. t) dev_catch))))
                  (length (spawned (trace (await (launchApp h app p s) (\<lambda>t. t) dev_catch))))"
    if "tmp_dirs (trace s) = []" and "spawned (trace s) = []" for app p s
  proof -
    have "J (length (tmp_dirs (trace s))) (length (spawned (trace s)))"
      using that zero by simp
    from launchApp_inv [of J h s app p, OF step this] show ?thesis
      by (simp add: await_dev_tmp_dirs await_dev_spawned)
  qed
  show ?thesis
  proof (cases "forceSetup h")
    case True
    then show ?thesis
      by (simp add: dev_run_def dev_main_def Let_def initial_def)
         (rule launch; simp add: step_simps)
  next
    case ns: False
    show ?thesis
    proof (cases "forceCms h")
      case True
      with ns show ?thesis
        by (simp add: dev_run_def dev_main_def Let_def initial_def)
           (rule launch; simp add: step_simps)
    next
      case nc: False
      show ?thesis
      proof (cases "validateSetupConfiguration h")
        case (Inl error)
        with ns nc zero show ?thesis
          by (simp add: dev_run_def dev_main_def Let_def initial_def dev_catch_def step_simps)
      next
        case (Inr v)
        show ?thesis
        proof (cases "complete v")
          case True
          with ns nc Inr show ?thesis
            by (simp add: dev_run_def dev_main_def Let_def initial_def)
               (rule launch; simp add: step_simps show_warnings_trace)
        next
          case False
          with ns nc Inr show ?thesis
            by (simp add: dev_run_def dev_main_def Let_def initial_def)
               (rule launch; simp add: step_simps)
        qed
      qed
    qed
  qed
qed

lemma build_run_inv:
  assumes step: "\<And>t. J (length (tmp_dirs (trace t))) (length (spawned (trace t))) \<Longrightarrow>
                   J (length (tmp_dirs (trace (snd (getEnvWithBunx h t))))) (Suc (length (spawned (trace t))))"
    and zero: "J 0 0"
  shows "J (length (tmp_dirs (trace (build_run h)))) (length (spawned (trace (build_run h))))"
proof (cases "buildAll h")
  case False
  let ?s1 = "emit (Console (Banner ''SveltyCMS Build'')) initial"
  have "J (length (tmp_dirs (trace ?s1))) (length (spawned (trace ?s1)))"
    using zero by (simp add: initial_def step_simps)
  from runBuild_inv [of J h ?s1 "''cms''", OF step this] False show ?thesis
    by (simp add: build_run_def build_main_def Let_def await_build_tmp_dirs await_build_spawned)
next
  case True
  let ?s2 = "emit (Console (Line ''Building all apps...'')) (emit (Console (Banner ''SveltyCMS Build'')) initial)"
  obtain p1 t1 where r1: "runBuild h ''setup-wizard'' ?s2 = (p1, t1)"
    by (cases "runBuild h ''setup-wizard'' ?s2")
  obtain p2 t2 where r2: "runBuild h ''cms'' t1 = (p2, t2)"
    by (cases "runBuild h ''cms'' t1")
  have "J (length (tmp_dirs (trace ?s2))) (length (spawned (trace ?s2)))"
    using zero by (simp add: initial_def step_simps)
  from runBuild_inv [of J h ?s2 "''setup-wizard''", OF step this] r1
  have j1: "J (length (tmp_dirs (trace t1))) (length (spawned (trace t1)))"
    by simp
  from runBuild_inv [of J h t1 "''cms''", OF step j1] r2
  have j2: "J (length (tmp_dirs (trace t2))) (length (spawned (trace t2)))"
    by simp
  have "build_run h = await (p1, t1) (\<lambda>s3. await (runBuild h ''cms'' s3)
            (\<lambda>s4. emit (Console (Line ''All builds completed successfully!'')) s4) build_catch) build_catch"
    using True r1 by (simp add: build_run_def build_main_def Let_def)
  then show ?thesis
    using j1 j2 r2
    by (simp add: await_def build_catch_def step_simps split: promise.splits)
qed

lemma build_single_spawned:
  "\<not> buildAll h \<Longrightarrow> spawned (trace (build_run h)) = [[''x'', ''nx'', ''build'', ''cms'']]"
  by (simp add: build_run_def build_main_def Let_def await_build_spawned runBuild_spawned
        initial_def step_simps)

lemma dev_run_spawned_count:
  "length (spawned (trace (dev_run h))) =
     (if forceSetup h \<or> forceCms h \<or> (\<exists>v. validateSetupConfiguration h = Inr v) then 1 else 0)"
proof (cases "forceSetup h")
  case True
  then show ?thesis using dev_run_setup [of h] by simp
next
  case ns: False
  show ?thesis
  proof (cases "forceCms h")
    case True
    with ns show ?thesis using dev_run_cms [of h] by simp
  next
    case False
    with ns show ?thesis using dev_run_auto [of h]
      by (cases "validateSetupConfiguration h") simp_all
  qed
qed

lemma build_run_spawned_count:
  "length (spawned (trace (build_run h))) =
     (if buildAll h \<and> child_fate h [''x'', ''nx'', ''build'', ''setup-wizard''] = ExitEvent (Some 0)
      then 2 else 1)"
proof (cases "buildAll h")
  case False
  then show ?thesis using build_single_spawned [of h] by simp
next
  case True
  then show ?thesis
    using build_all_resolved [of h] build_all_not_resolved [of h] by auto
qed

lemma getEnv_adds_one:
  assumes "\<forall>tr. \<not> bunxExists h tr (augmented h)"
    and "\<forall>tr. \<exists>tmpDir. fs_mkdtempSync h tr (path_join h (os_tmpdir h) ''sveltycms-bunx-'') = Inr tmpDir"
  shows "length (tmp_dirs (trace (snd (getEnvWithBunx h s)))) = Suc (length (tmp_dirs (trace s)))"
proof -
  obtain tmpDir where "fs_mkdtempSync h (trace s) (path_join h (os_tmpdir h) ''sveltycms-bunx-'') = Inr tmpDir"
    using assms(2) by blast
  then show ?thesis
    using assms(1) by (simp add: getEnv_tmp_dirs_exact)
qed

lemma getEnv_adds_none:
  assumes "\<forall>tr. bunxExists h tr (augmented h)"
  shows "tmp_dirs (trace (snd (getEnvWithBunx h s))) = tmp_dirs (trace s)"
  using assms by (simp add: getEnv_tmp_dirs_exact)

section \<open>The force flags\<close>

text \<open>
  Claim C1 says that of \<^verbatim>\<open>--setup\<close> and \<^verbatim>\<open>--cms\<close> the flag listed first decides the
  target. It does not: \<^verbatim>\<open>main\<close> tests \<^verbatim>\<open>forceSetup\<close> before \<^verbatim>\<open>forceCms\<close>, and
  \<^verbatim>\<open>includes\<close> does not look at positions. Called as
  \<^verbatim>\<open>bun scripts/dev.ts --cms --setup\<close>, the launcher starts the setup wizard.
\<close>

theorem first_listed_flag_counterexample:
  "dev_args cms_first_host = [''--cms'', ''--setup''] \<and>
   spawned (trace (dev_run cms_first_host)) = [[''x'', ''nx'', ''dev'', ''setup-wizard'']]"
  by (simp add: host_defs run_defs)

text \<open>
  Claim C1, amended: for every dev-script invocation whose argument list contains both
  \<^verbatim>\<open>--setup\<close> and \<^verbatim>\<open>--cms\<close>, in either order, the setup wizard is launched and the
  validator is not called.
\<close>

theorem both_flags_launch_setup:
  assumes "''--setup'' \<in> set (dev_args h)" and "''--cms'' \<in> set (dev_args h)"
  shows "spawned (trace (dev_run h)) =
           [[''x'', ''nx'', if isProduction h then ''build'' else ''dev'', ''setup-wizard'']] \<and>
         validator_calls (trace (dev_run h)) = 0"
  using assms dev_run_setup [of h] by (simp add: forceSetup_def)

text \<open>
  Claim C1, amended, at the command line \<^verbatim>\<open>--cms --setup\<close>.
\<close>

theorem both_flags_launch_setup_witness:
  "''--setup'' \<in> set (dev_args cms_first_host) \<and> ''--cms'' \<in> set (dev_args cms_first_host) \<and>
   spawned (trace (dev_run cms_first_host)) = [[''x'', ''nx'', ''dev'', ''setup-wizard'']] \<and>
   validator_calls (trace (dev_run cms_first_host)) = 0"
proof -
  have a: "''--setup'' \<in> set (dev_args cms_first_host)"
    by (simp add: host_defs dev_args_def)
  have b: "''--cms'' \<in> set (dev_args cms_first_host)"
    by (simp add: host_defs dev_args_def)
  have c: "\<not> isProduction cms_first_host"
    by (simp add: host_defs dev_args_def isProduction_def)
  show ?thesis using both_flags_launch_setup [OF a b] a b c by simp
qed

section \<open>Temporary directories per run\<close>

text \<open>
  Claim C2 says that one process creates at most one temporary directory, also in a
  build run with \<^verbatim>\<open>--all\<close>, and exactly one whenever \<^verbatim>\<open>bunx\<close> is absent. The resolver
  keeps nothing between calls and reads the inherited \<^verbatim>\<open>process.env\<close> each time, so on
  a machine without \<^verbatim>\<open>bunx\<close> the two builds of \<^verbatim>\<open>--all\<close> create two directories.
  On the same machine a run creates none when \<^verbatim>\<open>mkdtempSync\<close> throws, and none when the
  validator throws and nothing is launched.
\<close>

theorem one_shim_per_run_counterexample:
  "buildAll build_all_host \<and>
   \<not> bunxExists build_all_host [] (augmented build_all_host) \<and>
   tmp_dirs (trace (build_run build_all_host)) =
     [''/tmp/sveltycms-bunx-Ab12Cd'', ''/tmp/sveltycms-bunx-Ef34Gh''] \<and>
   \<not> bunxExists readonly_host [] (augmented readonly_host) \<and>
   tmp_dirs (trace (dev_run readonly_host)) = [] \<and>
   \<not> bunxExists throwing_validator_host [] (augmented throwing_validator_host) \<and>
   tmp_dirs (trace (dev_run throwing_validator_host)) = []"
  by (simp add: host_defs run_defs)

text \<open>
  Claim C2, amended. Each call of the environment resolver creates at most one temporary
  directory: none when \<^verbatim>\<open>bunx\<close> is found on the path list or \<^verbatim>\<open>mkdtempSync\<close>
  throws, exactly one otherwise. Each call of \<^verbatim>\<open>launchApp\<close> or \<^verbatim>\<open>runBuild\<close> creates
  what one call of the resolver creates, so a run creates at most one directory per child
  it spawns: at most one in a dev run and in a build run without \<^verbatim>\<open>--all\<close>, at most two
  with \<^verbatim>\<open>--all\<close>. When \<^verbatim>\<open>bunx\<close> is absent from every directory of the path list and
  \<^verbatim>\<open>mkdtempSync\<close> succeeds, a run creates exactly one directory per child spawned:
  exactly one in a dev run that launches a target (none when the validator throws),
  exactly one in a build run without \<^verbatim>\<open>--all\<close>, and with \<^verbatim>\<open>--all\<close> two when the
  \<^verbatim>\<open>setup-wizard\<close> child exits with code 0 and one otherwise. When \<^verbatim>\<open>bunx\<close> is
  present, a run creates none.
\<close>

theorem shim_dirs_per_call:
  "tmp_dirs (trace (snd (getEnvWithBunx h s))) =
     tmp_dirs (trace s) @
       (if bunxExists h (trace s) (augmented h) then []
        else (case fs_mkdtempSync h (trace s) (path_join h (os_tmpdir h) ''sveltycms-bunx-'') of
                Inl err \<Rightarrow> []
              | Inr tmpDir \<Rightarrow> [tmpDir])) \<and>
   length (tmp_dirs (trace (dev_run h))) \<le> 1 \<and>
   length (tmp_dirs (trace (build_run h))) \<le> (if buildAll h then 2 else 1) \<and>
   tmp_dirs (trace (snd (launchApp h app p s))) =
     tmp_dirs (trace (snd (getEnvWithBunx h
       (emit (Console (Line (''Command: nx '' @ join_spaces [if p then ''build'' else ''dev'', app])))
          (emit (Console (Line (''Launching: '' @ app))) s))))) \<and>
   tmp_dirs (trace (snd (runBuild h target s))) =
     tmp_dirs (trace (snd (getEnvWithBunx h (emit (Console (Line (''Building: '' @ target))) s)))) \<and>
   length (tmp_dirs (trace (dev_run h))) \<le> length (spawned (trace (dev_run h))) \<and>
   length (tmp_dirs (trace (build_run h))) \<le> length (spawned (trace (build_run h))) \<and>
   ((\<forall>tr. \<not> bunxExists h tr (augmented h)) \<and>
    (\<forall>tr. \<exists>tmpDir. fs_mkdtempSync h tr (path_join h (os_tmpdir h) ''sveltycms-bunx-'') = Inr tmpDir) \<longrightarrow>
      length (tmp_dirs (trace (dev_run h))) =
        (if forceSetup h \<or> forceCms h \<or> (\<exists>v. validateSetupConfiguration h = Inr v) then 1 else 0) \<and>
      length (tmp_dirs (trace (build_run h))) =
        (if buildAll h \<and> child_fate h [''x'', ''nx'', ''build'', ''setup-wizard''] = ExitEvent (Some 0)
         then 2 else 1) \<and>
      length (tmp_dirs (trace (dev_run h))) = length (spawned (trace (dev_run h))) \<and>
      length (tmp_dirs (trace (build_run h))) = length (spawned (trace (build_run h)))) \<and>
   ((\<forall>tr. bunxExists h tr (augmented h)) \<longrightarrow>
      tmp_dirs (trace (dev_run h)) = [] \<and> tmp_dirs (trace (build_run h)) = [])"
proof -
  have le_step: "length (tmp_dirs (trace (snd (getEnvWithBunx h t)))) \<le> Suc (length (spawned (trace t)))"
    if "length (tmp_dirs (trace t)) \<le> length (spawned (trace t))" for t
    using that by (rule getEnv_tmp_dirs)
  have le_dev: "length (tmp_dirs (trace (dev_run h))) \<le> length (spawned (trace (dev_run h)))"
    by (rule dev_run_inv [of "(\<le>)"]) (simp_all add: le_step)
  have le_build: "length (tmp_dirs (trace (build_run h))) \<le> length (spawned (trace (build_run h)))"
    by (rule build_run_inv [of "(\<le>)"]) (simp_all add: le_step)
  have exact: "length (tmp_dirs (trace (dev_run h))) = length (spawned (trace (dev_run h))) \<and>
               length (tmp_dirs (trace (build_run h))) = length (spawned (trace (build_run h)))"
    if a: "\<forall>tr. \<not> bunxExists h tr (augmented h)"
      and m: "\<forall>tr. \<exists>tmpDir. fs_mkdtempSync h tr (path_join h (os_tmpdir h) ''sveltycms-bunx-'') = Inr tmpDir"
  proof -
    have eq_step: "length (tmp_dirs (trace (snd (getEnvWithBunx h t)))) = Suc (length (spawned (trace t)))"
      if "length (tmp_dirs (trace t)) = length (spawned (trace t))" for t
      using getEnv_adds_one [OF a m, of t] that by simp
    have "length (tmp_dirs (trace (dev_run h))) = length (spawned (trace (dev_run h)))"
      by (rule dev_run_inv [of "(=)"]) (simp_all add: eq_step)
    moreover have "length (tmp_dirs (trace (build_run h))) = length (spawned (trace (build_run h)))"
      by (rule build_run_inv [of "(=)"]) (simp_all add: eq_step)
    ultimately show ?thesis by simp
  qed
  have none: "tmp_dirs (trace (dev_run h)) = [] \<and> tmp_dirs (trace (build_run h)) = []"
    if b: "\<forall>tr. bunxExists h tr (augmented h)"
  proof -
    have z_step: "length (tmp_dirs (trace (snd (getEnvWithBunx h t)))) = 0"
      if "length (tmp_dirs (trace t)) = 0" for t
      using getEnv_adds_none [OF b, of t] that by simp
    have "length (tmp_dirs (trace (dev_run h))) = 0"
      by (rule dev_run_inv [of "\<lambda>d n. d = 0"]) (simp_all add: z_step)
    moreover have "length (tmp_dirs (trace (build_run h))) = 0"
      by (rule build_run_inv [of "\<lambda>d n. d = 0"]) (simp_all add: z_step)
    ultimately show ?thesis by simp
  qed
  have exact_counts:
    "length (tmp_dirs (trace (dev_run h))) =
       (if forceSetup h \<or> forceCms h \<or> (\<exists>v. validateSetupConfiguration h = Inr v) then 1 else 0) \<and>
     length (tmp_dirs (trace (build_run h))) =
       (if buildAll h \<and> child_fate h [''x'', ''nx'', ''build'', ''setup-wizard''] = ExitEvent (Some 0)
        then 2 else 1) \<and>
     length (tmp_dirs (trace (dev_run h))) = length (spawned (trace (dev_run h))) \<and>
     length (tmp_dirs (trace (build_run h))) = length (spawned (trace (build_run h)))"
    if "(\<forall>tr. \<not> bunxExists h tr (augmented h)) \<and>
        (\<forall>tr. \<exists>tmpDir. fs_mkdtempSync h tr (path_join h (os_tmpdir h) ''sveltycms-bunx-'') = Inr tmpDir)"
    using exact that dev_run_spawned_count [of h] build_run_spawned_count [of h] by simp
  show ?thesis
    using getEnv_tmp_dirs_exact [of h s] dev_run_tmp_dirs [of h] build_run_tmp_dirs [of h]
      launchApp_one_resolver_call [of h app p s] runBuild_one_resolver_call [of h target s]
      le_dev le_build exact_counts none
    by blast
qed

text \<open>
  Claim C2, amended, on the machine without \<^verbatim>\<open>bunx\<close>: two directories for
  \<^verbatim>\<open>--all\<close> when both builds run, one when the first build fails, one for a single
  build and one for a dev run; and none on the machine that has \<^verbatim>\<open>bunx\<close>.
\<close>

theorem shim_dirs_per_call_witness:
  "(\<forall>tr. \<not> bunxExists build_all_host tr (augmented build_all_host)) \<and>
   (\<forall>tr. \<exists>tmpDir. fs_mkdtempSync build_all_host tr
       (path_join build_all_host (os_tmpdir build_all_host) ''sveltycms-bunx-'') = Inr tmpDir) \<and>
   buildAll build_all_host \<and>
   child_fate build_all_host [''x'', ''nx'', ''build'', ''setup-wizard''] = ExitEvent (Some 0) \<and>
   length (tmp_dirs (trace (build_run build_all_host))) = 2 \<and>
   (\<forall>tr. \<not> bunxExists failing_build_host tr (augmented failing_build_host)) \<and>
   (\<forall>tr. \<exists>tmpDir. fs_mkdtempSync failing_build_host tr
       (path_join failing_build_host (os_tmpdir failing_build_host) ''sveltycms-bunx-'') = Inr tmpDir) \<and>
   buildAll failing_build_host \<and>
   length (tmp_dirs (trace (build_run failing_build_host))) = 1 \<and>
   (\<forall>tr. \<not> bunxExists plain_host tr (augmented plain_host)) \<and>
   (\<forall>tr. \<exists>tmpDir. fs_mkdtempSync plain_host tr
       (path_join plain_host (os_tmpdir plain_host) ''sveltycms-bunx-'') = Inr tmpDir) \<and>
   \<not> buildAll plain_host \<and>
   length (tmp_dirs (trace (build_run plain_host))) = 1 \<and>
   length (tmp_dirs (trace (dev_run plain_host))) = 1 \<and>
   (\<forall>tr. bunxExists bunx_host tr (augmented bunx_host)) \<and>
   tmp_dirs (trace (dev_run bunx_host)) = [] \<and>
   tmp_dirs (trace (build_run bunx_host)) = [] \<and>
   tmp_dirs (trace (snd (getEnvWithBunx build_all_host initial))) = [''/tmp/sveltycms-bunx-Ab12Cd'']"
proof -
  note all = shim_dirs_per_call [of build_all_host initial "''cms''" False "''cms''"]
  note failing = shim_dirs_per_call [of failing_build_host initial "''cms''" False "''cms''"]
  note plain = shim_dirs_per_call [of plain_host initial "''cms''" False "''cms''"]
  note bunx = shim_dirs_per_call [of bunx_host initial "''cms''" False "''cms''"]
  have a1: "\<forall>tr. \<not> bunxExists build_all_host tr (augmented build_all_host)"
    by (simp add: host_defs run_defs)
  have a2: "\<forall>tr. \<exists>tmpDir. fs_mkdtempSync build_all_host tr
       (path_join build_all_host (os_tmpdir build_all_host) ''sveltycms-bunx-'') = Inr tmpDir"
    by (simp add: host_defs)
  have a3: "buildAll build_all_host"
    by (simp add: host_defs buildAll_def build_args_def)
  have a4: "child_fate build_all_host [''x'', ''nx'', ''build'', ''setup-wizard''] = ExitEvent (Some 0)"
    by (simp add: host_defs)
  have f1: "\<forall>tr. \<not> bunxExists failing_build_host tr (augmented failing_build_host)"
    by (simp add: host_defs run_defs)
  have f2: "\<forall>tr. \<exists>tmpDir. fs_mkdtempSync failing_build_host tr
       (path_join failing_build_host (os_tmpdir failing_build_host) ''sveltycms-bunx-'') = Inr tmpDir"
    by (simp add: host_defs)
  have f3: "buildAll failing_build_host"
    by (simp add: host_defs buildAll_def build_args_def)
  have f4: "child_fate failing_build_host [''x'', ''nx'', ''build'', ''setup-wizard''] \<noteq> ExitEvent (Some 0)"
    by (simp add: host_defs)
  have p1: "\<forall>tr. \<not> bunxExists plain_host tr (augmented plain_host)"
    by (simp add: host_defs run_defs)
  have p2: "\<forall>tr. \<exists>tmpDir. fs_mkdtempSync plain_host tr
       (path_join plain_host (os_tmpdir plain_host) ''sveltycms-bunx-'') = Inr tmpDir"
    by (simp add: host_defs)
  have p3: "\<not> buildAll plain_host"
    by (simp add: host_defs buildAll_def build_args_def)
  have p4: "validateSetupConfiguration plain_host = Inr complete_verdict"
    by (simp add: host_defs)
  have b1: "\<forall>tr. bunxExists bunx_host tr (augmented bunx_host)"
    by (simp add: host_defs run_defs)
  have g: "tmp_dirs (trace initial) = []"
      "fs_mkdtempSync build_all_host (trace initial)
         (path_join build_all_host (os_tmpdir build_all_host) ''sveltycms-bunx-'') =
       Inr ''/tmp/sveltycms-bunx-Ab12Cd''"
    by (simp_all add: host_defs run_defs)
  note all_exact = all [THEN conjunct2, THEN conjunct2, THEN conjunct2, THEN conjunct2,
    THEN conjunct2, THEN conjunct2, THEN conjunct2, THEN conjunct1, rule_format, OF conjI, OF a1 a2]
  note failing_exact = failing [THEN conjunct2, THEN conjunct2, THEN conjunct2, THEN conjunct2,
    THEN conjunct2, THEN conjunct2, THEN conjunct2, THEN conjunct1, rule_format, OF conjI, OF f1 f2]
  note plain_exact = plain [THEN conjunct2, THEN conjunct2, THEN conjunct2, THEN conjunct2,
    THEN conjunct2, THEN conjunct2, THEN conjunct2, THEN conjunct1, rule_format, OF conjI, OF p1 p2]
  note bunx_none = bunx [THEN conjunct2, THEN conjunct2, THEN conjunct2, THEN conjunct2,
    THEN conjunct2, THEN conjunct2, THEN conjunct2, THEN conjunct2, THEN mp, OF b1]
  have r1: "length (tmp_dirs (trace (build_run build_all_host))) = 2"
    using all_exact [THEN conjunct2, THEN conjunct1] a3 a4 by simp
  have r2: "length (tmp_dirs (trace (build_run failing_build_host))) = 1"
    using failing_exact [THEN conjunct2, THEN conjunct1] f4 by simp
  have r3: "length (tmp_dirs (trace (build_run plain_host))) = 1"
    using plain_exact [THEN conjunct2, THEN conjunct1] p3 by simp
  have r4: "length (tmp_dirs (trace (dev_run plain_host))) = 1"
    using plain_exact [THEN conjunct1] p4 by simp
  have r5: "tmp_dirs (trace (snd (getEnvWithBunx build_all_host initial))) = [''/tmp/sveltycms-bunx-Ab12Cd'']"
    using all [THEN conjunct1] a1 g by simp
  show ?thesis
    using a1 a2 a3 a4 f1 f2 f3 p1 p2 p3 b1 r1 r2 r3 r4 r5 bunx_none by blast
qed

section \<open>Branch order of the dev script\<close>

text \<open>
  Claim C3: the branches of the dev script are tried in order. With \<^verbatim>\<open>--setup\<close> the
  validator is not called and the setup wizard is the one child spawned; otherwise with
  \<^verbatim>\<open>--cms\<close> the validator is not called and the CMS is spawned; otherwise the validator
  is called exactly once, and the verdict it returns selects the setup wizard when
  \<^verbatim>\<open>complete\<close> is false and the CMS when it is true.
\<close>

theorem dev_branch_priority:
  "(forceSetup h \<longrightarrow>
      validator_calls (trace (dev_run h)) = 0 \<and>
      spawned (trace (dev_run h)) =
        [[''x'', ''nx'', if isProduction h then ''build'' else ''dev'', ''setup-wizard'']]) \<and>
   (\<not> forceSetup h \<and> forceCms h \<longrightarrow>
      validator_calls (trace (dev_run h)) = 0 \<and>
      spawned (trace (dev_run h)) =
        [[''x'', ''nx'', if isProduction h then ''build'' else ''dev'', ''cms'']]) \<and>
   (\<not> forceSetup h \<and> \<not> forceCms h \<longrightarrow>
      validator_calls (trace (dev_run h)) = 1 \<and>
      (\<forall>v. validateSetupConfiguration h = Inr v \<longrightarrow>
         spawned (trace (dev_run h)) =
           [[''x'', ''nx'', if isProduction h then ''build'' else ''dev'',
             if complete v then ''cms'' else ''setup-wizard'']]))"
  using dev_run_setup [of h] dev_run_cms [of h] dev_run_auto [of h]
  by (auto split: sum.splits)

text \<open>
  Claim C3 on four command lines: \<^verbatim>\<open>--setup --prod\<close>, \<^verbatim>\<open>--cms\<close>, no flag with an
  incomplete configuration, and no flag with a complete one.
\<close>

theorem dev_branch_priority_witness:
  "forceSetup setup_host \<and>
   validator_calls (trace (dev_run setup_host)) = 0 \<and>
   spawned (trace (dev_run setup_host)) = [[''x'', ''nx'', ''build'', ''setup-wizard'']] \<and>
   \<not> forceSetup cms_host \<and> forceCms cms_host \<and>
   validator_calls (trace (dev_run cms_host)) = 0 \<and>
   spawned (trace (dev_run cms_host)) = [[''x'', ''nx'', ''dev'', ''cms'']] \<and>
   \<not> forceSetup unconfigured_host \<and> \<not> forceCms unconfigured_host \<and>
   validateSetupConfiguration unconfigured_host = Inr incomplete_verdict \<and>
   \<not> complete incomplete_verdict \<and>
   validator_calls (trace (dev_run unconfigured_host)) = 1 \<and>
   spawned (trace (dev_run unconfigured_host)) = [[''x'', ''nx'', ''dev'', ''setup-wizard'']] \<and>
   \<not> forceSetup plain_host \<and> \<not> forceCms plain_host \<and>
   validateSetupConfiguration plain_host = Inr complete_verdict \<and>
   complete complete_verdict \<and>
   validator_calls (trace (dev_run plain_host)) = 1 \<and>
   spawned (trace (dev_run plain_host)) = [[''x'', ''nx'', ''dev'', ''cms'']]"
proof -
  have s: "forceSetup setup_host" "isProduction setup_host"
    by (simp_all add: host_defs forceSetup_def isProduction_def dev_args_def)
  have c: "\<not> forceSetup cms_host" "forceCms cms_host" "\<not> isProduction cms_host"
    by (simp_all add: host_defs forceSetup_def forceCms_def isProduction_def dev_args_def)
  have u: "\<not> forceSetup unconfigured_host" "\<not> forceCms unconfigured_host"
      "\<not> isProduction unconfigured_host"
      "validateSetupConfiguration unconfigured_host = Inr incomplete_verdict"
      "\<not> complete incomplete_verdict"
    by (simp_all add: host_defs forceSetup_def forceCms_def isProduction_def dev_args_def)
  have p: "\<not> forceSetup plain_host" "\<not> forceCms plain_host" "\<not> isProduction plain_host"
      "validateSetupConfiguration plain_host = Inr complete_verdict"
      "complete complete_verdict"
    by (simp_all add: host_defs forceSetup_def forceCms_def isProduction_def dev_args_def)
  show ?thesis
    using dev_branch_priority [of setup_host] dev_branch_priority [of cms_host]
      dev_branch_priority [of unconfigured_host] dev_branch_priority [of plain_host] s c u p
    by simp
qed

section \<open>The sequence of builds\<close>

text \<open>
  Claim C4: with \<^verbatim>\<open>--all\<close>, the build of \<^verbatim>\<open>setup-wizard\<close> is spawned first. The
  build of \<^verbatim>\<open>cms\<close> is spawned after it when the first child exits with code 0, and
  not at all otherwise. When the first build fails (its child raises \<^verbatim>\<open>error\<close> or exits
  with another code, so that its promise is not resolved), the process exits with status 1.
\<close>

theorem build_all_sequence:
  assumes "buildAll h"
  shows "(child_fate h [''x'', ''nx'', ''build'', ''setup-wizard''] = ExitEvent (Some 0) \<longrightarrow>
            spawned (trace (build_run h)) =
              [[''x'', ''nx'', ''build'', ''setup-wizard''], [''x'', ''nx'', ''build'', ''cms'']]) \<and>
         (child_fate h [''x'', ''nx'', ''build'', ''setup-wizard''] \<noteq> ExitEvent (Some 0) \<longrightarrow>
            spawned (trace (build_run h)) = [[''x'', ''nx'', ''build'', ''setup-wizard'']]) \<and>
         ((\<exists>error. child_fate h [''x'', ''nx'', ''build'', ''setup-wizard''] = ErrorEvent error) \<or>
          (\<exists>code. child_fate h [''x'', ''nx'', ''build'', ''setup-wizard''] = ExitEvent code \<and>
                  code \<noteq> Some 0) \<longrightarrow>
            fst (runBuild h ''setup-wizard''
                   (emit (Console (Line ''Building all apps...''))
                      (emit (Console (Banner ''SveltyCMS Build'')) initial))) \<noteq> Resolved \<and>
            spawned (trace (build_run h)) = [[''x'', ''nx'', ''build'', ''setup-wizard'']] \<and>
            status (build_run h) = Exited 1)"
  using build_all_resolved [OF assms] build_all_not_resolved [OF assms] build_all_rejected [OF assms]
  by (auto simp: runBuild_promise)

text \<open>
  Claim C4 on a run where both builds succeed and on one where the first child exits
  with code 1.
\<close>

theorem build_all_sequence_witness:
  "buildAll build_all_host \<and>
   child_fate build_all_host [''x'', ''nx'', ''build'', ''setup-wizard''] = ExitEvent (Some 0) \<and>
   spawned (trace (build_run build_all_host)) =
     [[''x'', ''nx'', ''build'', ''setup-wizard''], [''x'', ''nx'', ''build'', ''cms'']] \<and>
   buildAll failing_build_host \<and>
   child_fate failing_build_host [''x'', ''nx'', ''build'', ''setup-wizard''] = ExitEvent (Some 1) \<and>
   spawned (trace (build_run failing_build_host)) = [[''x'', ''nx'', ''build'', ''setup-wizard'']] \<and>
   status (build_run failing_build_host) = Exited 1"
proof -
  have a: "buildAll build_all_host"
    by (simp add: host_defs buildAll_def build_args_def)
  have b: "child_fate build_all_host [''x'', ''nx'', ''build'', ''setup-wizard''] = ExitEvent (Some 0)"
    by (simp add: host_defs)
  have c: "buildAll failing_build_host"
    by (simp add: host_defs buildAll_def build_args_def)
  have d: "child_fate failing_build_host [''x'', ''nx'', ''build'', ''setup-wizard''] = ExitEvent (Some 1)"
    by (simp add: host_defs)
  show ?thesis
    using build_all_sequence [OF a] build_all_sequence [OF c] a b c d by simp
qed

section \<open>Settlement of the launcher promise\<close>



section \<open>Mode selection\<close>

text \<open>
  Claim C6: whenever the dev script launches a target (a force flag is given, or the
  validator returns a verdict), the subcommand of the one child spawned is \<^verbatim>\<open>build\<close>
  if \<^verbatim>\<open>--prod\<close> or \<^verbatim>\<open>--production\<close> is among the arguments and \<^verbatim>\<open>dev\<close> if neither is,
  whichever of the two targets was chosen.
\<close>

theorem dev_mode_selection:
  assumes "forceSetup h \<or> forceCms h \<or> (\<exists>v. validateSetupConfiguration h = Inr v)"
  shows "\<exists>app. (app = ''setup-wizard'' \<or> app = ''cms'') \<and>
           spawned (trace (dev_run h)) =
             [[''x'', ''nx'',
               if ''--prod'' \<in> set (dev_args h) \<or> ''--production'' \<in> set (dev_args h)
               then ''build'' else ''dev'',
               app]]"
proof (cases "forceSetup h")
  case True
  then show ?thesis using dev_run_setup [of h] by (simp add: isProduction_def)
next
  case False
  show ?thesis
  proof (cases "forceCms h")
    case True
    with \<open>\<not> forceSetup h\<close> show ?thesis using dev_run_cms [of h] by (simp add: isProduction_def)
  next
    case False
    with \<open>\<not> forceSetup h\<close> assms obtain v where v: "validateSetupConfiguration h = Inr v" by blast
    from \<open>\<not> forceSetup h\<close> False v show ?thesis
      using dev_run_auto [of h] by (simp add: isProduction_def)
  qed
qed

text \<open>
  Claim C6 at the command line \<^verbatim>\<open>--setup --prod\<close>, and with no flag on a complete
  configuration.
\<close>

theorem dev_mode_selection_witness:
  "forceSetup setup_host \<and> ''--prod'' \<in> set (dev_args setup_host) \<and>
   spawned (trace (dev_run setup_host)) = [[''x'', ''nx'', ''build'', ''setup-wizard'']] \<and>
   validateSetupConfiguration plain_host = Inr complete_verdict \<and>
   ''--prod'' \<notin> set (dev_args plain_host) \<and> ''--production'' \<notin> set (dev_args plain_host) \<and>
   spawned (trace (dev_run plain_host)) = [[''x'', ''nx'', ''dev'', ''cms'']]"
proof -
  have a: "forceSetup setup_host"
    by (simp add: host_defs forceSetup_def dev_args_def)
  have b: "''--prod'' \<in> set (dev_args setup_host)"
    by (simp add: host_defs dev_args_def)
  have c: "spawned (trace (dev_run setup_host)) = [[''x'', ''nx'', ''build'', ''setup-wizard'']]"
    by (simp add: host_defs run_defs)
  have d: "validateSetupConfiguration plain_host = Inr complete_verdict"
    by (simp add: host_defs)
  have e: "''--prod'' \<notin> set (dev_args plain_host)" "''--production'' \<notin> set (dev_args plain_host)"
    by (simp_all add: host_defs dev_args_def)
  have f: "spawned (trace (dev_run plain_host)) = [[''x'', ''nx'', ''dev'', ''cms'']]"
    by (simp add: host_defs run_defs)
  have h1: "forceSetup setup_host \<or> forceCms setup_host \<or>
        (\<exists>v. validateSetupConfiguration setup_host = Inr v)"
    using a by simp
  have h2: "forceSetup plain_host \<or> forceCms plain_host \<or>
        (\<exists>v. validateSetupConfiguration plain_host = Inr v)"
    using d by simp
  from dev_mode_selection [OF h1] dev_mode_selection [OF h2] a b c d e f show ?thesis by simp
qed

section \<open>The resolver degrades\<close>

text \<open>
  Claim C7: the resolver does not throw (it is a total function whose \<^verbatim>\<open>try\<close> block
  hands every error to the \<^verbatim>\<open>catch\<close>). When \<^verbatim>\<open>mkdtempSync\<close> or \<^verbatim>\<open>symlinkSync\<close>
  throws, it logs the warning last and returns the inherited environment with only the
  three overrides of \<^verbatim>\<open>NODE_OPTIONS\<close>, \<^verbatim>\<open>NX_TERMINAL_OUTPUT_FORMAT\<close> and
  \<^verbatim>\<open>NX_NATIVE_LOGGING\<close>; \<^verbatim>\<open>PATH\<close> is as inherited and the process goes on.
\<close>

theorem shim_failure_degrades:
  assumes "\<not> bunxExists h (trace s) (augmented h)"
    and "fs_mkdtempSync h (trace s) (path_join h (os_tmpdir h) ''sveltycms-bunx-'') = Inl err \<or>
         (\<exists>tmpDir. fs_mkdtempSync h (trace s) (path_join h (os_tmpdir h) ''sveltycms-bunx-'') = Inr tmpDir \<and>
            fs_symlinkSync h (trace s @ [Mkdtemp tmpDir]) (process_execPath h)
              (path_join h tmpDir ''bunx'') = Some err)"
  shows "fst (getEnvWithBunx h s) =
           env_set ''NX_NATIVE_LOGGING'' ''false''
             (env_set ''NX_TERMINAL_OUTPUT_FORMAT'' ''text''
                (env_set ''NODE_OPTIONS''
                   (trim (or_empty (env_get (process_env h) ''NODE_OPTIONS'') @ '' --no-deprecation''))
                   (process_env h))) \<and>
         env_get (fst (getEnvWithBunx h s)) ''PATH'' = env_get (process_env h) ''PATH'' \<and>
         last (trace (snd (getEnvWithBunx h s))) = Console (ShimWarning err) \<and>
         status (snd (getEnvWithBunx h s)) = status s"
proof -
  have e: "fst (getEnvWithBunx h s) = augmented h"
    using assms by (auto simp: getEnvWithBunx_def shim_try_def Let_def step_simps)
  have w: "last (trace (snd (getEnvWithBunx h s))) = Console (ShimWarning err)"
    using assms by (auto simp: getEnvWithBunx_def shim_try_def Let_def step_simps)
  show ?thesis
    using e w by (simp add: getEnv_status augmented_get) (simp add: augmented_def Let_def)
qed

text \<open>
  Claim C7 on a machine whose temporary directory is not writable, and on one where the
  directory is made and the link is refused.
\<close>

theorem shim_failure_degrades_witness:
  "\<not> bunxExists readonly_host (trace initial) (augmented readonly_host) \<and>
   fs_mkdtempSync readonly_host (trace initial)
     (path_join readonly_host (os_tmpdir readonly_host) ''sveltycms-bunx-'') =
     Inl (PlatformError ''EACCES: permission denied, mkdtemp'') \<and>
   fst (getEnvWithBunx readonly_host initial) =
     [(''HOME'', ''/root''), (''PATH'', ''/usr/bin:/bin''), (''NODE_OPTIONS'', ''--no-deprecation''),
      (''NX_TERMINAL_OUTPUT_FORMAT'', ''text''), (''NX_NATIVE_LOGGING'', ''false'')] \<and>
   last (trace (snd (getEnvWithBunx readonly_host initial))) =
     Console (ShimWarning (PlatformError ''EACCES: permission denied, mkdtemp'')) \<and>
   \<not> bunxExists nolink_host (trace initial) (augmented nolink_host) \<and>
   fs_mkdtempSync nolink_host (trace initial)
     (path_join nolink_host (os_tmpdir nolink_host) ''sveltycms-bunx-'') =
     Inr ''/tmp/sveltycms-bunx-Ab12Cd'' \<and>
   fs_symlinkSync nolink_host (trace initial @ [Mkdtemp ''/tmp/sveltycms-bunx-Ab12Cd''])
     (process_execPath nolink_host) (path_join nolink_host ''/tmp/sveltycms-bunx-Ab12Cd'' ''bunx'') =
     Some (PlatformError ''EPERM: operation not permitted, symlink'') \<and>
   env_get (fst (getEnvWithBunx nolink_host initial)) ''PATH'' = Some ''/usr/bin:/bin'' \<and>
   last (trace (snd (getEnvWithBunx nolink_host initial))) =
     Console (ShimWarning (PlatformError ''EPERM: operation not permitted, symlink''))"
proof -
  have a: "\<not> bunxExists readonly_host (trace initial) (augmented readonly_host)"
    by (simp add: host_defs run_defs)
  have b: "fs_mkdtempSync readonly_host (trace initial)
             (path_join readonly_host (os_tmpdir readonly_host) ''sveltycms-bunx-'') =
           Inl (PlatformError ''EACCES: permission denied, mkdtemp'')"
    by (simp add: host_defs)
  have c: "env_set ''NX_NATIVE_LOGGING'' ''false''
             (env_set ''NX_TERMINAL_OUTPUT_FORMAT'' ''text''
                (env_set ''NODE_OPTIONS''
                   (trim (or_empty (env_get (process_env readonly_host) ''NODE_OPTIONS'') @ '' --no-deprecation''))
                   (process_env readonly_host))) =
           [(''HOME'', ''/root''), (''PATH'', ''/usr/bin:/bin''), (''NODE_OPTIONS'', ''--no-deprecation''),
            (''NX_TERMINAL_OUTPUT_FORMAT'', ''text''), (''NX_NATIVE_LOGGING'', ''false'')]"
    by (simp add: host_defs run_defs)
  have d: "fs_mkdtempSync readonly_host (trace initial)
            (path_join readonly_host (os_tmpdir readonly_host) ''sveltycms-bunx-'') =
          Inl (PlatformError ''EACCES: permission denied, mkdtemp'') \<or>
        (\<exists>tmpDir. fs_mkdtempSync readonly_host (trace initial)
            (path_join readonly_host (os_tmpdir readonly_host) ''sveltycms-bunx-'') = Inr tmpDir \<and>
            fs_symlinkSync readonly_host (trace initial @ [Mkdtemp tmpDir]) (process_execPath readonly_host)
              (path_join readonly_host tmpDir ''bunx'') = Some (PlatformError ''EACCES: permission denied, mkdtemp''))"
    using b by blast
  have a': "\<not> bunxExists nolink_host (trace initial) (augmented nolink_host)"
    by (simp add: host_defs run_defs)
  have b': "fs_mkdtempSync nolink_host (trace initial)
              (path_join nolink_host (os_tmpdir nolink_host) ''sveltycms-bunx-'') =
            Inr ''/tmp/sveltycms-bunx-Ab12Cd''"
    by (simp add: host_defs run_defs)
  have c': "fs_symlinkSync nolink_host (trace initial @ [Mkdtemp ''/tmp/sveltycms-bunx-Ab12Cd''])
              (process_execPath nolink_host) (path_join nolink_host ''/tmp/sveltycms-bunx-Ab12Cd'' ''bunx'') =
            Some (PlatformError ''EPERM: operation not permitted, symlink'')"
    by (simp add: host_defs)
  have e': "env_get (process_env nolink_host) ''PATH'' = Some ''/usr/bin:/bin''"
    by (simp add: host_defs run_defs)
  have d': "fs_mkdtempSync nolink_host (trace initial)
            (path_join nolink_host (os_tmpdir nolink_host) ''sveltycms-bunx-'') =
          Inl (PlatformError ''EPERM: operation not permitted, symlink'') \<or>
        (\<exists>tmpDir. fs_mkdtempSync nolink_host (trace initial)
            (path_join nolink_host (os_tmpdir nolink_host) ''sveltycms-bunx-'') = Inr tmpDir \<and>
            fs_symlinkSync nolink_host (trace initial @ [Mkdtemp tmpDir]) (process_execPath nolink_host)
              (path_join nolink_host tmpDir ''bunx'') = Some (PlatformError ''EPERM: operation not permitted, symlink''))"
    using b' c' by blast
  note r = shim_failure_degrades [OF a d]
  note n = shim_failure_degrades [OF a' d']
  have r1: "fst (getEnvWithBunx readonly_host initial) =
     [(''HOME'', ''/root''), (''PATH'', ''/usr/bin:/bin''), (''NODE_OPTIONS'', ''--no-deprecation''),
      (''NX_TERMINAL_OUTPUT_FORMAT'', ''text''), (''NX_NATIVE_LOGGING'', ''false'')]"
    using r [THEN conjunct1] c by (simp only:)
  have n1: "env_get (fst (getEnvWithBunx nolink_host initial)) ''PATH'' = Some ''/usr/bin:/bin''"
    using n [THEN conjunct2, THEN conjunct1] e' by (simp only:)
  show ?thesis
    using a b r1 r [THEN conjunct2, THEN conjunct2, THEN conjunct1]
      a' b' c' n1 n [THEN conjunct2, THEN conjunct2, THEN conjunct1]
    by blast
qed

section \<open>The resolver with the alias present\<close>

text \<open>
  Claim C8: when some directory of the inherited path list holds an entry \<^verbatim>\<open>bunx\<close>,
  the resolver leaves the state as it was (no directory, no link, no output) and returns
  the inherited environment with the three overrides only: \<^verbatim>\<open>PATH\<close> and every other
  variable are as inherited.
\<close>

theorem bunx_present_no_effect:
  assumes "\<exists>dir \<in> set (split_on (path_delimiter h) (or_empty (env_get (process_env h) ''PATH''))).
             fs_existsSync h (trace s) (path_join h dir ''bunx'') = Found"
  shows "snd (getEnvWithBunx h s) = s \<and>
         fst (getEnvWithBunx h s) =
           env_set ''NX_NATIVE_LOGGING'' ''false''
             (env_set ''NX_TERMINAL_OUTPUT_FORMAT'' ''text''
                (env_set ''NODE_OPTIONS''
                   (trim (or_empty (env_get (process_env h) ''NODE_OPTIONS'') @ '' --no-deprecation''))
                   (process_env h))) \<and>
         env_get (fst (getEnvWithBunx h s)) ''PATH'' = env_get (process_env h) ''PATH'' \<and>
         (\<forall>k. k \<noteq> ''NODE_OPTIONS'' \<and> k \<noteq> ''NX_TERMINAL_OUTPUT_FORMAT'' \<and> k \<noteq> ''NX_NATIVE_LOGGING'' \<longrightarrow>
              env_get (fst (getEnvWithBunx h s)) k = env_get (process_env h) k)"
proof -
  have "env_get (augmented h) ''PATH'' = env_get (process_env h) ''PATH''"
    by (simp add: augmented_get)
  moreover from assms obtain dir
    where "dir \<in> set (split_on (path_delimiter h) (or_empty (env_get (process_env h) ''PATH'')))"
      and "fs_existsSync h (trace s) (path_join h dir ''bunx'') = Found"
    by blast
  ultimately have "bunxExists h (trace s) (augmented h)"
    unfolding bunxExists_def Let_def list_ex_iff
    by (intro bexI [of _ dir]) simp_all
  then have r: "getEnvWithBunx h s = (augmented h, s)"
    by (simp add: getEnvWithBunx_def Let_def)
  show ?thesis
    unfolding r by (simp add: augmented_get) (simp add: augmented_def Let_def)
qed

text \<open>
  Claim C8 on a machine with \<^verbatim>\<open>/usr/bin/bunx\<close>.
\<close>

theorem bunx_present_no_effect_witness:
  "fs_existsSync bunx_host (trace initial) (path_join bunx_host ''/usr/bin'' ''bunx'') = Found \<and>
   ''/usr/bin'' \<in> set (split_on (path_delimiter bunx_host) (or_empty (env_get (process_env bunx_host) ''PATH''))) \<and>
   snd (getEnvWithBunx bunx_host initial) = initial \<and>
   env_get (fst (getEnvWithBunx bunx_host initial)) ''PATH'' = Some ''/usr/bin:/bin''"
proof -
  have a: "fs_existsSync bunx_host (trace initial) (path_join bunx_host ''/usr/bin'' ''bunx'') = Found"
    by (simp add: host_defs)
  have b: "''/usr/bin'' \<in> set (split_on (path_delimiter bunx_host) (or_empty (env_get (process_env bunx_host) ''PATH'')))"
    by (simp add: host_defs run_defs)
  have c: "env_get (process_env bunx_host) ''PATH'' = Some ''/usr/bin:/bin''"
    by (simp add: host_defs run_defs)
  have "\<exists>dir \<in> set (split_on (path_delimiter bunx_host) (or_empty (env_get (process_env bunx_host) ''PATH''))).
          fs_existsSync bunx_host (trace initial) (path_join bunx_host dir ''bunx'') = Found"
    using a b by blast
  note t = bunx_present_no_effect [OF this]
  from t [THEN conjunct1] t [THEN conjunct2, THEN conjunct2, THEN conjunct1] a b c
  show ?thesis by simp
qed

section \<open>Variables the resolver always sets\<close>

text \<open>
  Claim C9: whatever the resolver meets (alias present, shim made, shim failed), the
  environment it returns has \<^verbatim>\<open>NODE_OPTIONS\<close> ending in the appended
  \<^verbatim>\<open>--no-deprecation\<close>, \<^verbatim>\<open>NX_TERMINAL_OUTPUT_FORMAT\<close> set to \<^verbatim>\<open>text\<close> and
  \<^verbatim>\<open>NX_NATIVE_LOGGING\<close> set to \<^verbatim>\<open>false\<close>.
\<close>

theorem resolver_sets_variables:
  "(\<exists>v. env_get (fst (getEnvWithBunx h s)) ''NODE_OPTIONS'' = Some v \<and> suffix ''--no-deprecation'' v) \<and>
   env_get (fst (getEnvWithBunx h s)) ''NODE_OPTIONS'' =
     Some (trim (or_empty (env_get (process_env h) ''NODE_OPTIONS'') @ '' --no-deprecation'')) \<and>
   env_get (fst (getEnvWithBunx h s)) ''NX_TERMINAL_OUTPUT_FORMAT'' = Some ''text'' \<and>
   env_get (fst (getEnvWithBunx h s)) ''NX_NATIVE_LOGGING'' = Some ''false''"
proof -
  consider "fst (getEnvWithBunx h s) = augmented h"
    | v where "fst (getEnvWithBunx h s) = env_set ''PATH'' v (augmented h)"
    using getEnv_cases [of h s] by blast
  then show ?thesis
  proof cases
    case 1
    then show ?thesis by (simp add: augmented_get trim_flag)
  next
    case 2
    then show ?thesis by (simp add: env_get_set augmented_get trim_flag)
  qed
qed

text \<open>
  Claim C9 on three machines: without \<^verbatim>\<open>bunx\<close>, with it, and with a failing shim.
\<close>

theorem resolver_sets_variables_witness:
  "env_get (fst (getEnvWithBunx plain_host initial)) ''NODE_OPTIONS'' = Some ''--no-deprecation'' \<and>
   env_get (fst (getEnvWithBunx bunx_host initial)) ''NX_TERMINAL_OUTPUT_FORMAT'' = Some ''text'' \<and>
   env_get (fst (getEnvWithBunx readonly_host initial)) ''NX_NATIVE_LOGGING'' = Some ''false''"
proof -
  have "trim (or_empty (env_get (process_env plain_host) ''NODE_OPTIONS'') @ '' --no-deprecation'') =
        ''--no-deprecation''"
    by (simp add: host_defs run_defs)
  then show ?thesis
    using resolver_sets_variables [of plain_host initial] resolver_sets_variables [of bunx_host initial]
      resolver_sets_variables [of readonly_host initial]
    by simp
qed

section \<open>Strict comparison of the exit code\<close>

text \<open>
  Claim C10: the test is \<^verbatim>\<open>code !== 0\<close>, so every exit event whose code is not the
  number 0 rejects the promise with a message that embeds the code, the \<^verbatim>\<open>null\<close> of a
  child ended by a signal included; the promise is resolved only on code 0. For a
  numeric code the text after \<^verbatim>\<open>exited with code\<close> is a decimal numeral that denotes
  that code.
\<close>

theorem exit_code_strictness:
  "(\<forall>code. child_fate h [''x'', ''nx'', if p then ''build'' else ''dev'', app] = ExitEvent code \<and>
           code \<noteq> Some 0 \<longrightarrow>
      fst (launchApp h app p s) = Rejected (Error (app @ '' exited with code '' @ show_code code))) \<and>
   (child_fate h [''x'', ''nx'', if p then ''build'' else ''dev'', app] = ExitEvent None \<longrightarrow>
      fst (launchApp h app p s) = Rejected (Error (app @ '' exited with code null''))) \<and>
   (fst (launchApp h app p s) = Resolved \<longrightarrow>
      child_fate h [''x'', ''nx'', if p then ''build'' else ''dev'', app] = ExitEvent (Some 0)) \<and>
   (\<forall>code. child_fate h [''x'', ''nx'', ''build'', target] = ExitEvent code \<and> code \<noteq> Some 0 \<longrightarrow>
      fst (runBuild h target s) = Rejected (Error (target @ '' build exited with code '' @ show_code code))) \<and>
   (child_fate h [''x'', ''nx'', ''build'', target] = ExitEvent None \<longrightarrow>
      fst (runBuild h target s) = Rejected (Error (target @ '' build exited with code null''))) \<and>
   (fst (runBuild h target s) = Resolved \<longrightarrow>
      child_fate h [''x'', ''nx'', ''build'', target] = ExitEvent (Some 0)) \<and>
   (\<forall>c. child_fate h [''x'', ''nx'', if p then ''build'' else ''dev'', app] = ExitEvent (Some c) \<and> c \<noteq> 0 \<longrightarrow>
      (\<exists>numeral. fst (launchApp h app p s) = Rejected (Error (app @ '' exited with code '' @ numeral)) \<and>
                 read_int numeral = c)) \<and>
   (\<forall>c. child_fate h [''x'', ''nx'', ''build'', target] = ExitEvent (Some c) \<and> c \<noteq> 0 \<longrightarrow>
      (\<exists>numeral. fst (runBuild h target s) = Rejected (Error (target @ '' build exited with code '' @ numeral)) \<and>
                 read_int numeral = c))"
  unfolding launchApp_promise runBuild_promise
  by (cases "child_fate h [''x'', ''nx'', if p then ''build'' else ''dev'', app]";
      cases "child_fate h [''x'', ''nx'', ''build'', target]";
      simp add: show_code_def read_int_show_int)

text \<open>
  Claim C10 on children ended by a signal, on a child that exits with 0, and on children
  that exit with 137 and with 1.
\<close>

theorem exit_code_strictness_witness:
  "child_fate signalled_host [''x'', ''nx'', ''dev'', ''cms''] = ExitEvent None \<and>
   fst (launchApp signalled_host ''cms'' False initial) = Rejected (Error ''cms exited with code null'') \<and>
   child_fate signalled_host [''x'', ''nx'', ''build'', ''cms''] = ExitEvent None \<and>
   fst (runBuild signalled_host ''cms'' initial) = Rejected (Error ''cms build exited with code null'') \<and>
   fst (launchApp plain_host ''cms'' False initial) = Resolved \<and>
   child_fate plain_host [''x'', ''nx'', ''dev'', ''cms''] = ExitEvent (Some 0) \<and>
   child_fate crashing_host [''x'', ''nx'', ''dev'', ''cms''] = ExitEvent (Some 137) \<and>
   fst (launchApp crashing_host ''cms'' False initial) = Rejected (Error ''cms exited with code 137'') \<and>
   child_fate failing_build_host [''x'', ''nx'', ''build'', ''setup-wizard''] = ExitEvent (Some 1) \<and>
   fst (runBuild failing_build_host ''setup-wizard'' initial) =
     Rejected (Error ''setup-wizard build exited with code 1'')"
proof -
  note sig = exit_code_strictness [of signalled_host False "''cms''" initial "''cms''"]
  note ok = exit_code_strictness [of plain_host False "''cms''" initial "''cms''"]
  note crash = exit_code_strictness [of crashing_host False "''cms''" initial "''cms''"]
  note fail = exit_code_strictness [of failing_build_host False "''cms''" initial "''setup-wizard''"]
  have a: "child_fate signalled_host [''x'', ''nx'', ''dev'', ''cms''] = ExitEvent None"
    by (simp add: host_defs)
  have b: "child_fate signalled_host [''x'', ''nx'', ''build'', ''cms''] = ExitEvent None"
    by (simp add: host_defs)
  have c: "fst (launchApp plain_host ''cms'' False initial) = Resolved"
    by (simp add: launchApp_promise host_defs)
  have d: "child_fate crashing_host [''x'', ''nx'', ''dev'', ''cms''] = ExitEvent (Some 137)"
    by (simp add: host_defs)
  have e: "child_fate failing_build_host [''x'', ''nx'', ''build'', ''setup-wizard''] = ExitEvent (Some 1)"
    by (simp add: host_defs)
  have n137: "show_code (Some 137) = ''137''"
    by code_simp
  have n1: "show_code (Some 1) = ''1''"
    by code_simp
  have r1: "fst (launchApp signalled_host ''cms'' False initial) = Rejected (Error ''cms exited with code null'')"
    using sig [THEN conjunct2, THEN conjunct1] a by simp
  have r2: "fst (runBuild signalled_host ''cms'' initial) = Rejected (Error ''cms build exited with code null'')"
    using sig [THEN conjunct2, THEN conjunct2, THEN conjunct2, THEN conjunct2, THEN conjunct1] b by simp
  have r3: "child_fate plain_host [''x'', ''nx'', ''dev'', ''cms''] = ExitEvent (Some 0)"
    using ok [THEN conjunct2, THEN conjunct2, THEN conjunct1] c by simp
  have r4: "fst (launchApp crashing_host ''cms'' False initial) = Rejected (Error ''cms exited with code 137'')"
    using crash [THEN conjunct1, rule_format, of "Some 137"] d n137 by simp
  have r5: "fst (runBuild failing_build_host ''setup-wizard'' initial) =
              Rejected (Error ''setup-wizard build exited with code 1'')"
    using fail [THEN conjunct2, THEN conjunct2, THEN conjunct2, THEN conjunct1, rule_format, of "Some 1"] e n1
    by simp
  show ?thesis
    using a b c d e r1 r2 r3 r4 r5 by blast
qed

end
